theory Spec2Isabelle
  imports Complex_Main "HOL-Library.AList" "HOL-Library.Log_Nat"
begin

section \<open>JavaScript values as the server handlers use them\<close>

text \<open>
  The backend handlers are untyped: request bodies and stored records are whatever JSON
  the caller sent, read with property access, object spread, truthiness tests and
  template literals. The model keeps that: one datatype of values, an object being its
  list of properties in insertion order. A number inside a JSON value is a finite double,
  given by its exact value; the arithmetic of doubles is in the section on numbers.
\<close>

datatype jsval =
    Undefined
  | Null
  | JBool bool
  | JNum rat
  | JStr string
  | JArr "jsval list"
  | JObj "(string \<times> jsval) list"

text \<open>The truthiness test of \<^verbatim>\<open>if (v)\<close>, \<^verbatim>\<open>!v\<close>, \<^verbatim>\<open>a || b\<close> and \<^verbatim>\<open>a && b\<close>.\<close>

fun truthy :: "jsval \<Rightarrow> bool" where
  "truthy Undefined = False"
| "truthy Null = False"
| "truthy (JBool b) = b"
| "truthy (JNum r) = (r \<noteq> 0)"
| "truthy (JStr s) = (s \<noteq> [])"
| "truthy (JArr xs) = True"
| "truthy (JObj fs) = True"

definition js_or :: "jsval \<Rightarrow> jsval \<Rightarrow> jsval" where
  "js_or a b = (if truthy a then a else b)"

definition js_and :: "jsval \<Rightarrow> jsval \<Rightarrow> jsval" where
  "js_and a b = (if truthy a then b else a)"

text \<open>
  Reading a property of \<^verbatim>\<open>null\<close> or \<^verbatim>\<open>undefined\<close> throws a TypeError; the
  handlers below test \<open>nullish\<close> (or truthiness) before each read, so \<open>get_field\<close>
  is only ever applied to values where the read succeeds. The property names read by
  the handlers (\<^verbatim>\<open>status\<close>, \<^verbatim>\<open>comments\<close>, \<^verbatim>\<open>employee_id\<close>,
  \<^verbatim>\<open>manager_id\<close>, \<^verbatim>\<open>expense_id\<close>, \<^verbatim>\<open>email\<close>, \<^verbatim>\<open>convertedAmount\<close>)
  are undefined on every primitive and on arrays.
\<close>

definition nullish :: "jsval \<Rightarrow> bool" where
  "nullish v = (v = Undefined \<or> v = Null)"

fun get_field :: "jsval \<Rightarrow> string \<Rightarrow> jsval" where
  "get_field (JObj fs) k = (case map_of fs k of None \<Rightarrow> Undefined | Some v \<Rightarrow> v)"
| "get_field v k = Undefined"

text \<open>
  Template literals \<^verbatim>\<open>`${v}`\<close> turn a value into a string. How the runtime prints a
  number is the parameter \<open>num_str\<close> (Number-to-string of the engine). An object
  prints as \<^verbatim>\<open>[object Object]\<close>; one that carries a property of its own named
  \<^verbatim>\<open>toString\<close> or \<^verbatim>\<open>valueOf\<close> is outside the model.
\<close>

fun join_comma :: "string list \<Rightarrow> string" where
  "join_comma [] = []"
| "join_comma [s] = s"
| "join_comma (s # t # ss) = s @ '','' @ join_comma (t # ss)"

fun to_string :: "(rat \<Rightarrow> string) \<Rightarrow> jsval \<Rightarrow> string" where
  "to_string num_str Undefined = ''undefined''"
| "to_string num_str Null = ''null''"
| "to_string num_str (JBool b) = (if b then ''true'' else ''false'')"
| "to_string num_str (JNum r) = num_str r"
| "to_string num_str (JStr s) = s"
| "to_string num_str (JArr xs) =
     join_comma (map (\<lambda>x. if nullish x then [] else to_string num_str x) xs)"
| "to_string num_str (JObj fs) = ''[object Object]''"

text \<open>
  Object literals. \<^verbatim>\<open>{ id: a, ...b, status: c }\<close> adds the properties left to right;
  a later property of the same name replaces the value and keeps the position, a new
  name is appended. A spread copies the own enumerable properties of its operand:
  the properties of an object, the indexed elements of an array or string, nothing else.
\<close>

datatype obj_part = Member string jsval | Spread jsval

definition indexed :: "(rat \<Rightarrow> string) \<Rightarrow> jsval list \<Rightarrow> (string \<times> jsval) list" where
  "indexed num_str xs = zip (map (\<lambda>i. num_str (of_nat i)) [0..<length xs]) xs"

fun own_props :: "(rat \<Rightarrow> string) \<Rightarrow> jsval \<Rightarrow> (string \<times> jsval) list" where
  "own_props num_str (JObj fs) = fs"
| "own_props num_str (JArr xs) = indexed num_str xs"
| "own_props num_str (JStr s) = indexed num_str (map (\<lambda>c. JStr [c]) s)"
| "own_props num_str v = []"

fun add_prop :: "(rat \<Rightarrow> string) \<Rightarrow> (string \<times> jsval) list \<Rightarrow> obj_part \<Rightarrow> (string \<times> jsval) list" where
  "add_prop num_str fs (Member k v) = AList.update k v fs"
| "add_prop num_str fs (Spread v) = foldl (\<lambda>acc (k, x). AList.update k x acc) fs (own_props num_str v)"

definition object_literal :: "(rat \<Rightarrow> string) \<Rightarrow> obj_part list \<Rightarrow> jsval" where
  "object_literal num_str ps = JObj (foldl (add_prop num_str) [] ps)"

section \<open>The key-value store\<close>

text \<open>
  Modelled from the spec: the module \<^verbatim>\<open>./kv_store.tsx\<close> that the server imports as
  \<^verbatim>\<open>kv\<close> is not among the sources. The spec gives its contract:
  \<^verbatim>\<open>get(key) -> value|absent\<close>, \<^verbatim>\<open>set(key, value) -> ok\<close>,
  \<^verbatim>\<open>delete(key) -> ok\<close>. An absent key reads as \<^verbatim>\<open>undefined\<close>. A failure of
  the underlying I/O (the handlers' catch blocks answering 500) is not modelled.
\<close>

type_synonym store = "string \<rightharpoonup> jsval"

definition kv_get :: "store \<Rightarrow> string \<Rightarrow> jsval" where
  "kv_get s key = (case s key of None \<Rightarrow> Undefined | Some v \<Rightarrow> v)"

definition kv_set :: "store \<Rightarrow> string \<Rightarrow> jsval \<Rightarrow> store" where
  "kv_set s key v = s(key \<mapsto> v)"


section \<open>HTTP responses\<close>

text \<open>\<^verbatim>\<open>c.json(body)\<close> answers 200, \<^verbatim>\<open>c.json(body, code)\<close> answers \<open>code\<close>.\<close>

datatype response = Response (status_code: nat) (body: jsval)

definition error_body :: "string \<Rightarrow> jsval" where
  "error_body msg = JObj [(''error'', JStr msg)]"

section \<open>Numbers\<close>

text \<open>
  A JavaScript number is an IEEE 754 double: NaN, an infinity, or a finite double, which
  is a rational number. The sign of a zero is not kept: a product, \<^verbatim>\<open>Math.round\<close>,
  a division by 100, \<^verbatim>\<open>||\<close> and JSON treat both zeros alike.
\<close>

datatype number = NaN | PlusInfinity | MinusInfinity | Double rat

definition pow2 :: "int \<Rightarrow> rat" where
  "pow2 e = (if 0 \<le> e then 2 ^ nat e else 1 / 2 ^ nat (- e))"

text \<open>For \<open>0 < a\<close>, the exponent \<open>k\<close> with \<open>2^k \<le> a < 2^(k+1)\<close>.\<close>

definition floor_log2 :: "rat \<Rightarrow> int" where
  "floor_log2 a = (if 1 \<le> a then bitlen \<lfloor>a\<rfloor> - 1 else - bitlen (\<lceil>1 / a\<rceil> - 1))"

definition round_half_even :: "rat \<Rightarrow> int" where
  "round_half_even y =
     (let f = \<lfloor>y\<rfloor>; d = y - of_int f
      in if d < 1 / 2 then f else if 1 / 2 < d then f + 1 else if even f then f else f + 1)"

text \<open>
  The double nearest to a rational, a tie going to the even significand: 53 significant
  bits, down to the exponent of the subnormal numbers, and an infinity from
  \<open>2^1024\<close> on. Every arithmetic result, and every numeric literal of the source, is
  rounded this way.
\<close>

definition round_double :: "rat \<Rightarrow> number" where
  "round_double x =
     (if x = 0 then Double 0
      else
        let a = \<bar>x\<bar>;
            e = max (floor_log2 a - 52) (- 1074);
            v = of_int (round_half_even (a / pow2 e)) * pow2 e
        in if pow2 1024 \<le> v then (if 0 < x then PlusInfinity else MinusInfinity)
           else Double (sgn x * v))"

fun negative :: "number \<Rightarrow> bool" where
  "negative MinusInfinity = True"
| "negative (Double a) = (a < 0)"
| "negative x = False"

text \<open>The product \<^verbatim>\<open>x * y\<close> of two numbers.\<close>

fun js_times :: "number \<Rightarrow> number \<Rightarrow> number" where
  "js_times NaN y = NaN"
| "js_times x NaN = NaN"
| "js_times (Double a) (Double b) = round_double (a * b)"
| "js_times x y =
     (if x = Double 0 \<or> y = Double 0 then NaN
      else if negative x = negative y then PlusInfinity else MinusInfinity)"

text \<open>The quotient \<^verbatim>\<open>x / d\<close> by a positive finite constant \<open>d\<close>, here always 100.\<close>

fun js_divide :: "number \<Rightarrow> rat \<Rightarrow> number" where
  "js_divide (Double a) d = round_double (a / d)"
| "js_divide x d = x"

text \<open>
  \<^verbatim>\<open>Math.round\<close>: the nearest integer, a tie going towards plus infinity. The result is
  a double without rounding: a double of magnitude \<open>2^52\<close> or more is an integer already.
\<close>

fun Math_round :: "number \<Rightarrow> number" where
  "Math_round (Double a) = Double (of_int \<lfloor>a + 1 / 2\<rfloor>)"
| "Math_round x = x"

declare Math_round.simps [simp del]

text \<open>\<^verbatim>\<open>JSON.stringify\<close> prints NaN and the infinities as \<^verbatim>\<open>null\<close>.\<close>

fun json_number :: "number \<Rightarrow> jsval" where
  "json_number (Double a) = JNum a"
| "json_number x = Null"

text \<open>
  \<^verbatim>\<open>JSON.stringify\<close> of an object literal leaves out the properties whose value is
  \<^verbatim>\<open>undefined\<close> (or a function).
\<close>

definition json_of_fields :: "(string \<times> jsval) list \<Rightarrow> jsval" where
  "json_of_fields fs = JObj (filter (\<lambda>(k, v). v \<noteq> Undefined) fs)"

section \<open>Currency conversion\<close>

text \<open>
  The rate table, the same literal in the server route
  \<^verbatim>\<open>GET /convert/:from/:to/:amount\<close> and in the client helper \<^verbatim>\<open>convertCurrency\<close>.
  An entry is the decimal literal of the source; the number it denotes is its nearest
  double.
\<close>

definition conversionRates :: "(string \<times> (string \<times> rat) list) list" where
  "conversionRates =
     [(''USD'', [(''EUR'', 85 / 100), (''GBP'', 73 / 100), (''JPY'', 110), (''USD'', 1)]),
      (''EUR'', [(''USD'', 118 / 100), (''GBP'', 86 / 100), (''JPY'', 129), (''EUR'', 1)]),
      (''GBP'', [(''USD'', 137 / 100), (''EUR'', 116 / 100), (''JPY'', 151), (''GBP'', 1)]),
      (''JPY'', [(''USD'', 91 / 10000), (''EUR'', 77 / 10000), (''GBP'', 66 / 10000), (''JPY'', 1)])]"

text \<open>The table's own entry for a pair of codes, if it has one.\<close>

definition table_rate :: "string \<Rightarrow> string \<Rightarrow> rat option" where
  "table_rate from to =
     (case map_of conversionRates from of
        None \<Rightarrow> None
      | Some row \<Rightarrow> map_of row to)"

text \<open>
  The table and its rows are plain objects, so \<^verbatim>\<open>conversionRates[from]?.[to]\<close> also
  finds what they inherit from the engine's built-in objects: for the pair
  \<^verbatim>\<open>USD\<close>, \<^verbatim>\<open>constructor\<close> it is the function \<^verbatim>\<open>Object\<close>. Which members
  the built-in objects have is the engine's; the model takes it as the parameter
  \<open>inherited\<close>, which gives, for a pair that is no entry of the table, what the route
  needs of the value found: whether it is truthy, what it is as a number, and what
  \<^verbatim>\<open>JSON.stringify\<close> leaves of it (nothing of a function). Reading a member can also
  throw, as \<^verbatim>\<open>caller\<close> of a built-in function does.
\<close>

datatype lookup =
    Absent
  | Found (found_truthy: bool) (found_number: number) (found_json: "jsval option")
  | Throwing

type_synonym engine = "string \<Rightarrow> string \<Rightarrow> lookup"

definition found_number_value :: "number \<Rightarrow> lookup" where
  "found_number_value n = Found (n \<noteq> NaN \<and> n \<noteq> Double 0) n (Some (json_number n))"

text \<open>\<^verbatim>\<open>conversionRates[from]?.[to]\<close>.\<close>

definition looked_up :: "engine \<Rightarrow> string \<Rightarrow> string \<Rightarrow> lookup" where
  "looked_up inherited from to =
     (case table_rate from to of
        Some r \<Rightarrow> found_number_value (round_double r)
      | None \<Rightarrow> inherited from to)"

text \<open>
  \<^verbatim>\<open>const rate = conversionRates[from]?.[to] || 1\<close>, when the lookup does not throw:
  the value found if it is truthy, else 1.
\<close>

definition or_1 :: "lookup \<Rightarrow> lookup" where
  "or_1 m = (case m of Found True n j \<Rightarrow> m | _ \<Rightarrow> found_number_value (Double 1))"

definition rate_or_1 :: "engine \<Rightarrow> string \<Rightarrow> string \<Rightarrow> number" where
  "rate_or_1 inherited from to = found_number (or_1 (looked_up inherited from to))"

text \<open>
  \<^verbatim>\<open>Math.round(parseFloat(amount) * rate * 100) / 100\<close>. The argument \<open>amount\<close> is
  \<^verbatim>\<open>parseFloat(amount)\<close> of the path segment. There is no test for equal currencies:
  every amount is multiplied and rounded.
\<close>

definition convertedAmount :: "engine \<Rightarrow> string \<Rightarrow> string \<Rightarrow> number \<Rightarrow> number" where
  "convertedAmount inherited from to amount =
     (let rate = rate_or_1 inherited from to
      in js_divide (Math_round (js_times (js_times amount rate) (Double 100))) 100)"

text \<open>The server route; a throwing lookup ends in the catch block.\<close>

definition convert_route :: "engine \<Rightarrow> string \<Rightarrow> string \<Rightarrow> number \<Rightarrow> response" where
  "convert_route inherited from to amount =
     (if looked_up inherited from to = Throwing
      then Response 500 (error_body ''Failed to convert currency'')
      else Response 200 (json_of_fields
        [(''originalAmount'', json_number amount),
         (''convertedAmount'', json_number (convertedAmount inherited from to amount)),
         (''fromCurrency'', JStr from),
         (''toCurrency'', JStr to),
         (''rate'', (case found_json (or_1 (looked_up inherited from to)) of
                       None \<Rightarrow> Undefined | Some j \<Rightarrow> j))]))"

text \<open>
  The client helper \<^verbatim>\<open>convertCurrency\<close>: equal currencies return before the lookup
  and the rounding. \<open>None\<close> is the rejected promise of a throwing lookup.
\<close>

definition convertCurrency :: "engine \<Rightarrow> number \<Rightarrow> string \<Rightarrow> string \<Rightarrow> number option" where
  "convertCurrency inherited amount fromCurrency toCurrency =
     (if fromCurrency = toCurrency then Some amount
      else if looked_up inherited fromCurrency toCurrency = Throwing then None
      else let rate = rate_or_1 inherited fromCurrency toCurrency
           in Some (js_divide (Math_round (js_times (js_times amount rate) (Double 100))) 100))"

section \<open>The server routes over the store\<close>

text \<open>
  Time enters a handler as the readings it takes: \<^verbatim>\<open>Date.now()\<close> is a natural number
  of milliseconds, \<^verbatim>\<open>new Date().toISOString()\<close> a string.
\<close>

subsection \<open>\<^verbatim>\<open>GET /user/:email\<close>\<close>


subsection \<open>\<^verbatim>\<open>POST /expenses\<close>\<close>

record expense_clock =
  expense_now :: nat
  expense_created_at :: string
  approval_now :: nat
  approval_created_at :: string

text \<open>
  The body is what \<^verbatim>\<open>c.req.json()\<close> parsed. A \<^verbatim>\<open>null\<close> body spreads to nothing,
  so the expense is stored, and then \<^verbatim>\<open>expenseData.employee_id\<close> throws: the catch
  block answers 500 with the expense already written.
\<close>

definition create_expense ::
  "(rat \<Rightarrow> string) \<Rightarrow> expense_clock \<Rightarrow> jsval \<Rightarrow> store \<Rightarrow> response \<times> store" where
  "create_expense num_str clk expenseData s =
     (let expenseId = ''expense-'' @ num_str (of_nat (expense_now clk));
          expense = object_literal num_str
            [Member ''id'' (JStr expenseId),
             Spread expenseData,
             Member ''status'' (JStr ''pending''),
             Member ''created_at'' (JStr (expense_created_at clk))];
          s1 = kv_set s (''expense:'' @ expenseId) expense
      in if nullish expenseData
         then (Response 500 (error_body ''Failed to create expense''), s1)
         else
           let user = kv_get s1 (''user:'' @ to_string num_str (get_field expenseData ''employee_id''))
           in if truthy (js_and user (get_field user ''manager_id''))
              then
                let approvalStepId = ''approval-'' @ num_str (of_nat (approval_now clk));
                    approvalStep = object_literal num_str
                      [Member ''id'' (JStr approvalStepId),
                       Member ''expense_id'' (JStr expenseId),
                       Member ''approver_id'' (get_field user ''manager_id''),
                       Member ''status'' (JStr ''pending''),
                       Member ''sequence'' (JNum 1),
                       Member ''created_at'' (JStr (approval_created_at clk))]
                in (Response 200 expense, kv_set s1 (''approval_step:'' @ approvalStepId) approvalStep)
              else (Response 200 expense, s1))"

subsection \<open>\<^verbatim>\<open>POST /approvals/:approvalId\<close>\<close>

text \<open>
  The request as the handler could see it: the path parameter, the parsed body and the
  \<^verbatim>\<open>Authorization\<close> header, the only thing in a request that could tell who is
  calling. The handler reads the first two.
\<close>

record approval_request =
  approvalId :: string
  json_body :: jsval
  authorization :: string

text \<open>
  Destructuring \<^verbatim>\<open>const { status, comments } = await c.req.json()\<close> throws on a
  \<^verbatim>\<open>null\<close> body, before anything is read or written. \<open>now\<close> is the reading
  \<^verbatim>\<open>new Date().toISOString()\<close> for \<^verbatim>\<open>decided_at\<close>.
\<close>

definition process_approval ::
  "(rat \<Rightarrow> string) \<Rightarrow> string \<Rightarrow> approval_request \<Rightarrow> store \<Rightarrow> response \<times> store" where
  "process_approval num_str now req s =
     (if nullish (json_body req)
      then (Response 500 (error_body ''Failed to process approval''), s)
      else
        let status = get_field (json_body req) ''status'';
            comments = get_field (json_body req) ''comments'';
            approval = kv_get s (''approval_step:'' @ approvalId req)
        in if \<not> truthy approval
           then (Response 404 (error_body ''Approval not found''), s)
           else
             let updatedApproval = object_literal num_str
                   [Spread approval,
                    Member ''status'' status,
                    Member ''comments'' (js_or comments Null),
                    Member ''decided_at'' (JStr now)];
                 s1 = kv_set s (''approval_step:'' @ approvalId req) updatedApproval;
                 expense_key = ''expense:'' @ to_string num_str (get_field approval ''expense_id'');
                 expense = kv_get s1 expense_key
             in if truthy expense
                then
                  let updatedExpense = object_literal num_str
                        [Spread expense, Member ''status'' status]
                  in (Response 200 updatedApproval, kv_set s1 expense_key updatedExpense)
                else (Response 200 updatedApproval, s1))"

subsection \<open>\<^verbatim>\<open>DELETE /users/:userId\<close>\<close>


section \<open>The client: the API gateway and the expense form\<close>

text \<open>
  \<^verbatim>\<open>apiClient.processApproval(approvalId, status, comments?)\<close>, with
  \<^verbatim>\<open>status: 'approved' | 'rejected'\<close>; every client sends the same
  \<^verbatim>\<open>Authorization\<close> header, the project's public key, here \<open>publicAnonKey\<close>.
\<close>

datatype decision = Approved | Rejected

fun decision_str :: "decision \<Rightarrow> string" where
  "decision_str Approved = ''approved''"
| "decision_str Rejected = ''rejected''"

definition processApproval ::
  "string \<Rightarrow> string \<Rightarrow> decision \<Rightarrow> string option \<Rightarrow> approval_request" where
  "processApproval publicAnonKey approval_id status comments =
     \<lparr>approvalId = approval_id,
      json_body = json_of_fields
        [(''status'', JStr (decision_str status)),
         (''comments'', (case comments of None \<Rightarrow> Undefined | Some c \<Rightarrow> JStr c))],
      authorization = ''Bearer '' @ publicAnonKey\<rparr>"

text \<open>
  \<^verbatim>\<open>handleSubmit\<close> of the expense form: it asks the conversion route for the amount in
  the company currency, fixed to USD, builds the expense data and posts it. The form's
  amount is \<^verbatim>\<open>parseFloat(formData.amount)\<close>, and the route parses back the same number
  from the path; \<open>user_id\<close> is \<^verbatim>\<open>user?.id\<close> and \<open>receiptUrl\<close> the outcome of the
  upload, \<^verbatim>\<open>null\<close> without a file. \<^verbatim>\<open>apiClient.request\<close> throws on an answer that
  is not ok; then nothing is posted, and the result here is the failed answer.
\<close>

record form_data =
  form_amount :: number
  form_currency :: string
  form_category :: string
  form_description :: string
  form_date :: string

definition ok :: "response \<Rightarrow> bool" where
  "ok r = (200 \<le> status_code r \<and> status_code r < 300)"

definition expenseData_of :: "string option \<Rightarrow> jsval \<Rightarrow> form_data \<Rightarrow> jsval \<Rightarrow> jsval" where
  "expenseData_of user_id receiptUrl formData conversionData =
     json_of_fields
       [(''employee_id'', (case user_id of None \<Rightarrow> Undefined | Some u \<Rightarrow> JStr u)),
        (''amount'', json_number (form_amount formData)),
        (''currency'', JStr (form_currency formData)),
        (''amount_in_company_currency'', get_field conversionData ''convertedAmount''),
        (''category'', JStr (form_category formData)),
        (''description'', JStr (form_description formData)),
        (''date'', JStr (form_date formData)),
        (''receipt_url'', receiptUrl)]"

definition handleSubmit ::
  "engine \<Rightarrow> (rat \<Rightarrow> string) \<Rightarrow> expense_clock \<Rightarrow> string option \<Rightarrow> jsval \<Rightarrow> form_data \<Rightarrow> store
     \<Rightarrow> response \<times> store" where
  "handleSubmit inherited num_str clk user_id receiptUrl formData s =
     (let companyCurrency = ''USD'';
          conversion = convert_route inherited (form_currency formData) companyCurrency
                         (form_amount formData)
      in if \<not> ok conversion then (conversion, s)
         else create_expense num_str clk
                (expenseData_of user_id receiptUrl formData (body conversion)) s)"

section \<open>Rounding to two decimal places, as the specification words it\<close>

text \<open>
  The specification says of a conversion that the "result is rounded to two decimal
  places using standard rounding". Read as a relation between the exact product \<open>y\<close>
  and the result \<open>r\<close>: \<open>r\<close> is a whole number of hundredths, it is a nearest one
  to \<open>y\<close>, and of two equally near ones it is the upper.
\<close>

definition rounded_to_2dp :: "rat \<Rightarrow> rat \<Rightarrow> bool" where
  "rounded_to_2dp y r \<longleftrightarrow>
     of_int \<lfloor>r * 100\<rfloor> = r * 100 \<and> y - 1 / 200 < r \<and> r \<le> y + 1 / 200"

section \<open>Sample data\<close>

text \<open>
  The engine's printing of a natural number, in decimal; the sample runs below use it
  for \<open>num_str\<close>.
\<close>

fun digits :: "nat \<Rightarrow> string" where
  "digits n =
     (if n < 10 then [''0123456789'' ! n]
      else digits (n div 10) @ [''0123456789'' ! (n mod 10)])"

declare digits.simps [simp del]

definition decimal :: "rat \<Rightarrow> string" where
  "decimal r = digits (nat \<lfloor>r\<rfloor>)"

text \<open>
  The writes of \<^verbatim>\<open>POST /setup\<close>, in the route's order: the demo company, the three
  demo users, each with its e-mail lookup record, the demo approval rule and the two
  sample expenses. \<open>created_at\<close> stands for the route's clock readings.
\<close>

definition demo_users :: "string \<Rightarrow> jsval list" where
  "demo_users created_at =
     [JObj [(''id'', JStr ''admin-001''), (''email'', JStr ''admin@company.com''),
            (''name'', JStr ''Admin User''), (''role'', JStr ''admin''),
            (''company_id'', JStr ''demo-company-001''),
            (''is_manager_approver'', JBool False), (''created_at'', JStr created_at)],
      JObj [(''id'', JStr ''manager-001''), (''email'', JStr ''manager@company.com''),
            (''name'', JStr ''Manager User''), (''role'', JStr ''manager''),
            (''company_id'', JStr ''demo-company-001''),
            (''is_manager_approver'', JBool True), (''created_at'', JStr created_at)],
      JObj [(''id'', JStr ''employee-001''), (''email'', JStr ''employee@company.com''),
            (''name'', JStr ''Employee User''), (''role'', JStr ''employee''),
            (''company_id'', JStr ''demo-company-001''),
            (''manager_id'', JStr ''manager-001''),
            (''is_manager_approver'', JBool False), (''created_at'', JStr created_at)]]"

definition demo_expenses :: "string \<Rightarrow> jsval list" where
  "demo_expenses created_at =
     [JObj [(''id'', JStr ''expense-001''), (''employee_id'', JStr ''employee-001''),
            (''amount'', JNum 50), (''currency'', JStr ''USD''),
            (''amount_in_company_currency'', JNum 50),
            (''category'', JStr ''Meals & Entertainment''),
            (''description'', JStr ''Team lunch meeting''), (''date'', JStr ''2024-01-15''),
            (''status'', JStr ''approved''), (''created_at'', JStr created_at)],
      JObj [(''id'', JStr ''expense-002''), (''employee_id'', JStr ''employee-001''),
            (''amount'', JNum 120), (''currency'', JStr ''USD''),
            (''amount_in_company_currency'', JNum 120),
            (''category'', JStr ''Transportation''),
            (''description'', JStr ''Uber to client meeting''), (''date'', JStr ''2024-01-16''),
            (''status'', JStr ''pending''), (''created_at'', JStr created_at)]]"

definition setup_writes :: "(rat \<Rightarrow> string) \<Rightarrow> string \<Rightarrow> store \<Rightarrow> store" where
  "setup_writes num_str created_at s =
     (let s1 = kv_set s ''company:demo-company-001''
                 (JObj [(''id'', JStr ''demo-company-001''), (''name'', JStr ''Demo Corporation''),
                        (''country'', JStr ''United States''), (''currency'', JStr ''USD''),
                        (''created_at'', JStr created_at)]);
          s2 = foldl (\<lambda>acc user.
                  kv_set (kv_set acc (''user:'' @ to_string num_str (get_field user ''id'')) user)
                    (''user:email:'' @ to_string num_str (get_field user ''email''))
                    (get_field user ''id''))
                s1 (demo_users created_at);
          s3 = kv_set s2 ''approval_rule:rule-001''
                 (JObj [(''id'', JStr ''rule-001''), (''company_id'', JStr ''demo-company-001''),
                        (''type'', JStr ''specific''),
                        (''specific_approver_id'', JStr ''manager-001''),
                        (''created_at'', JStr created_at)])
      in foldl (\<lambda>acc expense.
                  kv_set acc (''expense:'' @ to_string num_str (get_field expense ''id'')) expense)
           s3 (demo_expenses created_at))"

definition demo_store :: store where
  "demo_store = setup_writes decimal ''2024-01-16T09:00:00.000Z'' Map.empty"

text \<open>
  Of what the rows of the rate table inherit, one member: \<^verbatim>\<open>constructor\<close>, which
  every plain object has from \<^verbatim>\<open>Object.prototype\<close> and which is the function
  \<^verbatim>\<open>Object\<close>. A function is truthy, NaN as a number, and left out by
  \<^verbatim>\<open>JSON.stringify\<close>.
\<close>

definition sample_engine :: engine where
  "sample_engine from to =
     (if from \<in> set (map fst conversionRates) \<and> to = ''constructor''
      then Found True NaN None else Absent)"

text \<open>The clock of the sample submission, and the form filled as in the specification's example.\<close>

definition sample_clock :: expense_clock where
  "sample_clock =
     \<lparr>expense_now = 1705400000000, expense_created_at = ''2024-01-16T10:13:20.000Z'',
      approval_now = 1705400000001, approval_created_at = ''2024-01-16T10:13:20.001Z''\<rparr>"

definition sample_form :: form_data where
  "sample_form =
     \<lparr>form_amount = Double 120, form_currency = ''USD'', form_category = ''Transportation'',
      form_description = ''Uber to client meeting'', form_date = ''2024-01-16''\<rparr>"

text \<open>
  What the sample submission stores: the expense, and the approval step for the
  employee's manager.
\<close>

definition sample_expense :: jsval where
  "sample_expense =
     JObj [(''id'', JStr ''expense-1705400000000''), (''employee_id'', JStr ''employee-001''),
           (''amount'', JNum 120), (''currency'', JStr ''USD''),
           (''amount_in_company_currency'', JNum 120), (''category'', JStr ''Transportation''),
           (''description'', JStr ''Uber to client meeting''), (''date'', JStr ''2024-01-16''),
           (''receipt_url'', Null), (''status'', JStr ''pending''),
           (''created_at'', JStr ''2024-01-16T10:13:20.000Z'')]"

definition sample_step :: jsval where
  "sample_step =
     JObj [(''id'', JStr ''approval-1705400000001''),
           (''expense_id'', JStr ''expense-1705400000000''),
           (''approver_id'', JStr ''manager-001''), (''status'', JStr ''pending''),
           (''sequence'', JNum 1), (''created_at'', JStr ''2024-01-16T10:13:20.001Z'')]"

definition submitted_store :: store where
  "submitted_store =
     demo_store(''expense:expense-1705400000000'' \<mapsto> sample_expense,
                ''approval_step:approval-1705400000001'' \<mapsto> sample_step)"

text \<open>A store holding the sample step but not its expense.\<close>

definition orphan_step_store :: store where
  "orphan_step_store = demo_store(''approval_step:approval-1705400000001'' \<mapsto> sample_step)"

text \<open>
  Two decisions on the sample step, as the client builds them; the second carries
  another \<^verbatim>\<open>Authorization\<close> header than the first.
\<close>

definition approve_request :: approval_request where
  "approve_request = processApproval ''anon'' ''approval-1705400000001'' Approved (Some ''Looks fine'')"

definition reject_request :: approval_request where
  "reject_request =
     (processApproval ''anon'' ''approval-1705400000001'' Rejected None)
       \<lparr>authorization := ''Bearer someone-else''\<rparr>"

text \<open>
  The approvals page keeps the comment in a state that starts as the empty string, and
  sends it as it is: a decision taken without typing a comment.
\<close>

definition empty_comment_request :: approval_request where
  "empty_comment_request = processApproval ''anon'' ''approval-1705400000001'' Approved (Some [])"

text \<open>
  Bodies posted to the submission route itself: the specification's example as it stands,
  one for an employee id that has no user record, one for the demo manager, who has no
  manager.
\<close>

definition sample_body :: jsval where
  "sample_body =
     JObj [(''employee_id'', JStr ''employee-001''), (''amount'', JNum 120),
           (''currency'', JStr ''USD''), (''category'', JStr ''Transportation''),
           (''date'', JStr ''2024-01-16'')]"



text \<open>
  The demo store with the company's currency set to EUR, and a form filled with 100 USD.
\<close>

definition eur_company_store :: store where
  "eur_company_store =
     demo_store(''company:demo-company-001'' \<mapsto>
       JObj [(''id'', JStr ''demo-company-001''), (''name'', JStr ''Demo Corporation''),
             (''country'', JStr ''Germany''), (''currency'', JStr ''EUR''),
             (''created_at'', JStr ''2024-01-16T09:00:00.000Z'')])"

definition usd_100_form :: form_data where
  "usd_100_form =
     \<lparr>form_amount = Double 100, form_currency = ''USD'', form_category = ''Travel'',
      form_description = ''Train ticket'', form_date = ''2024-01-16''\<rparr>"

section \<open>Reading the store and object literals\<close>

lemma kv_get_upd: "kv_get (s(k \<mapsto> v)) k' = (if k' = k then v else kv_get s k')"
  by (simp add: kv_get_def)


lemma kv_get_absent: "s k = None \<Longrightarrow> kv_get s k = Undefined"
  by (simp add: kv_get_def)

lemma truthy_js_and: "truthy (js_and a b) = (truthy a \<and> truthy b)"
  by (simp add: js_and_def)

text \<open>A spread of distinct properties: each of them wins over what was there before.\<close>

lemma map_of_spread:
  assumes "distinct (map fst ps)"
  shows "map_of (foldl (\<lambda>acc (k, x). AList.update k x acc) fs ps) k =
           (case map_of ps k of None \<Rightarrow> map_of fs k | Some v \<Rightarrow> Some v)"
  using assms
proof (induction ps arbitrary: fs)
  case Nil
  then show ?case by simp
next
  case (Cons p ps)
  obtain a b where p: "p = (a, b)" by (cases p)
  from Cons.prems p have absent: "map_of ps a = None" and d: "distinct (map fst ps)"
    by (auto simp: map_of_eq_None_iff)
  show ?case
    using Cons.IH [OF d, of "AList.update a b fs"] absent
    by (auto simp add: p update_conv' split: option.splits)
qed

text \<open>An object literal has no two properties of the same name.\<close>

lemma spread_distinct:
  "distinct (map fst fs) \<Longrightarrow>
     distinct (map fst (foldl (\<lambda>acc (k, x). AList.update k x acc) fs ps))"
  by (induction ps arbitrary: fs) (auto simp: distinct_update)

lemma get_field_absent: "k \<notin> fst ` set fs \<Longrightarrow> get_field (JObj fs) k = Undefined"
  by (simp add: map_of_eq_None_iff [THEN iffD2])

section \<open>The sample store\<close>

lemma decimal_expense_now: "decimal 1705400000000 = ''1705400000000''"
  by (simp add: decimal_def digits.simps)

lemma decimal_approval_now: "decimal 1705400000001 = ''1705400000001''"
  by (simp add: decimal_def digits.simps)

lemma demo_store_employee:
  "demo_store ''user:employee-001'' = Some (demo_users ''2024-01-16T09:00:00.000Z'' ! 2)"
  by (simp add: demo_store_def setup_writes_def demo_users_def demo_expenses_def kv_set_def)

lemma demo_store_no_step: "demo_store (''approval_step:'' @ k) = None"
  by (simp add: demo_store_def setup_writes_def demo_users_def demo_expenses_def kv_set_def)

lemma processApproval_id: "approvalId (processApproval key i d c) = i"
  by (simp add: processApproval_def)

lemma processApproval_body: "\<not> nullish (json_body (processApproval key i d c))"
  by (simp add: processApproval_def json_of_fields_def nullish_def)

lemma processApproval_status:
  "get_field (json_body (processApproval key i d c)) ''status'' = JStr (decision_str d)"
  by (simp add: processApproval_def json_of_fields_def)

lemma processApproval_comments:
  "get_field (json_body (processApproval key i d c)) ''comments'' =
     (case c of None \<Rightarrow> Undefined | Some x \<Rightarrow> JStr x)"
  by (simp add: processApproval_def json_of_fields_def split: option.splits)

lemma submitted_store_step:
  "kv_get submitted_store ''approval_step:approval-1705400000001'' = sample_step"
  by (simp add: submitted_store_def kv_get_upd)

lemma submitted_store_expense:
  "kv_get submitted_store ''expense:expense-1705400000000'' = sample_expense"
  by (simp add: submitted_store_def kv_get_upd)

lemma sample_step_expense_id: "get_field sample_step ''expense_id'' = JStr ''expense-1705400000000''"
  by (simp add: sample_step_def)

lemma demo_store_no_sample_expense: "demo_store ''expense:expense-1705400000000'' = None"
  by (simp add: demo_store_def setup_writes_def demo_users_def demo_expenses_def kv_set_def)

lemma approve_request_fields:
  "approvalId approve_request = ''approval-1705400000001''"
  "\<not> nullish (json_body approve_request)"
  "get_field (json_body approve_request) ''status'' = JStr ''approved''"
  "get_field (json_body approve_request) ''comments'' = JStr ''Looks fine''"
  by (simp_all add: approve_request_def processApproval_id processApproval_body
      processApproval_status processApproval_comments)

lemma reject_request_fields:
  "approvalId reject_request = ''approval-1705400000001''"
  "\<not> nullish (json_body reject_request)"
  "get_field (json_body reject_request) ''status'' = JStr ''rejected''"
  "get_field (json_body reject_request) ''comments'' = Undefined"
  by (simp_all add: reject_request_def processApproval_def json_of_fields_def nullish_def)

lemma empty_comment_request_fields:
  "approvalId empty_comment_request = ''approval-1705400000001''"
  "\<not> nullish (json_body empty_comment_request)"
  "get_field (json_body empty_comment_request) ''status'' = JStr ''approved''"
  "get_field (json_body empty_comment_request) ''comments'' = JStr []"
  by (simp_all add: empty_comment_request_def processApproval_id processApproval_body
      processApproval_status processApproval_comments)

lemma orphan_step_store_step:
  "kv_get orphan_step_store ''approval_step:approval-1705400000001'' = sample_step"
  by (simp add: orphan_step_store_def kv_get_upd)

lemma orphan_step_store_no_expense:
  "orphan_step_store ''expense:expense-1705400000000'' = None"
  by (simp add: orphan_step_store_def demo_store_no_sample_expense)





lemma demo_employee_fields:
  "truthy (demo_users c ! 2)"
  "get_field (demo_users c ! 2) ''manager_id'' = JStr ''manager-001''"
  "get_field (demo_users c ! 2) ''email'' = JStr ''employee@company.com''"
  by (simp_all add: demo_users_def)

lemma sample_body_fields:
  "\<not> nullish sample_body"
  "get_field sample_body ''employee_id'' = JStr ''employee-001''"
  by (simp_all add: sample_body_def nullish_def)

section \<open>Rounding to the nearest double\<close>

text \<open>
  How to check a value of \<open>round_double\<close>: the exponent is the one whose powers of two
  enclose the argument, the significand is the integer nearest to the scaled argument,
  and of two equally near ones the even one.
\<close>

lemma pow2_pos: "0 < pow2 e"
  by (simp add: pow2_def)

lemma bitlen_eqI:
  assumes "2 ^ w \<le> n" and "n < 2 ^ (w + 1)"
  shows "bitlen n = int w + 1"
proof -
  from assms have "0 \<le> n - 2 ^ w" and "n - 2 ^ w < 2 ^ w"
    by simp_all
  then have "bitlen (2 ^ w + (n - 2 ^ w)) = int w + 1"
    by (simp only: bitlen_twopow_add_eq)
  then show ?thesis by simp
qed

lemma floor_log2_eqI:
  assumes "pow2 k \<le> a" and "a < pow2 (k + 1)"
  shows "floor_log2 a = k"
proof (cases "0 \<le> k")
  case True
  define w where "w = nat k"
  with True have k: "k = int w" by simp
  from assms have lo: "2 ^ w \<le> a" and hi: "a < 2 ^ (w + 1)"
    by (simp_all add: pow2_def k nat_add_distrib)
  have "(1::rat) \<le> 2 ^ w" by simp
  with lo have one: "1 \<le> a" by linarith
  have "rat_of_int (2 ^ w) \<le> a" using lo by simp
  then have l: "2 ^ w \<le> \<lfloor>a\<rfloor>" by (simp only: le_floor_iff)
  have "a < rat_of_int (2 ^ (w + 1))" using hi by simp
  then have h: "\<lfloor>a\<rfloor> < 2 ^ (w + 1)" by (simp only: floor_less_iff)
  from bitlen_eqI [OF l h] one show ?thesis
    by (simp add: floor_log2_def k)
next
  case False
  define w where "w = nat (- k - 1)"
  with False have k: "k = - int w - 1" by simp
  have p1: "pow2 k = 1 / 2 ^ (w + 1)"
    by (simp add: pow2_def k nat_add_distrib)
  have p2: "pow2 (k + 1) = 1 / 2 ^ w"
    by (cases w) (simp_all add: pow2_def k nat_add_distrib)
  from assms have lo: "1 / 2 ^ (w + 1) \<le> a" and hi: "a < 1 / 2 ^ w"
    by (simp_all only: p1 p2)
  have pos: "0 < a"
    using lo by (rule less_le_trans [rotated]) simp
  have "1 / (2::rat) ^ w \<le> 1" by simp
  with hi have small: "\<not> 1 \<le> a" by linarith
  from hi pos have "2 ^ w < 1 / a"
    by (simp add: field_simps)
  then have "rat_of_int (2 ^ w) < 1 / a" by simp
  then have "2 ^ w < \<lceil>1 / a\<rceil>" by (simp only: less_ceiling_iff)
  then have l: "2 ^ w \<le> \<lceil>1 / a\<rceil> - 1" by simp
  from lo pos have "1 / a \<le> 2 ^ (w + 1)"
    by (simp add: field_simps)
  then have "1 / a \<le> rat_of_int (2 ^ (w + 1))" by simp
  then have "\<lceil>1 / a\<rceil> \<le> 2 ^ (w + 1)" by (simp only: ceiling_le_iff)
  then have h: "\<lceil>1 / a\<rceil> - 1 < 2 ^ (w + 1)" by simp
  from bitlen_eqI [OF l h] small show ?thesis
    by (simp add: floor_log2_def k)
qed

lemma round_half_even_eqI:
  assumes "of_int m - 1 / 2 < y" and "y < of_int m + 1 / 2"
  shows "round_half_even y = m"
proof -
  have "\<lfloor>y\<rfloor> = m \<or> \<lfloor>y\<rfloor> = m - 1"
    using assms by linarith
  then show ?thesis
  proof
    assume f: "\<lfloor>y\<rfloor> = m"
    with assms show ?thesis by (simp add: round_half_even_def Let_def)
  next
    assume f: "\<lfloor>y\<rfloor> = m - 1"
    then have "y < of_int m" by linarith
    with assms f show ?thesis by (simp add: round_half_even_def Let_def)
  qed
qed

lemma round_half_even_tieI:
  assumes "y = of_int f + 1 / 2"
  shows "round_half_even y = (if even f then f else f + 1)"
proof -
  have "\<lfloor>y\<rfloor> = f"
    using assms by linarith
  with assms show ?thesis by (simp add: round_half_even_def Let_def)
qed

lemma round_double_eqI:
  assumes "pow2 k \<le> x" and "x < pow2 (k + 1)" and "- 1022 \<le> k"
    and "of_int m - 1 / 2 < x / pow2 (k - 52)" and "x / pow2 (k - 52) < of_int m + 1 / 2"
    and "of_int m * pow2 (k - 52) < pow2 1024"
  shows "round_double x = Double (of_int m * pow2 (k - 52))"
proof -
  have pos: "0 < x"
    using pow2_pos assms(1) by (rule less_le_trans)
  have fl: "floor_log2 x = k"
    using assms(1,2) by (rule floor_log2_eqI)
  have e: "max (k - 52) (- 1074) = k - 52"
    using assms(3) by simp
  have r: "round_half_even (x / pow2 (k - 52)) = m"
    using assms(4,5) by (rule round_half_even_eqI)
  show ?thesis
    using pos assms(6) by (simp add: round_double_def Let_def fl e r)
qed

lemma round_double_tieI:
  assumes "pow2 k \<le> x" and "x < pow2 (k + 1)" and "- 1022 \<le> k"
    and "x / pow2 (k - 52) = of_int f + 1 / 2"
    and "of_int (if even f then f else f + 1) * pow2 (k - 52) < pow2 1024"
  shows "round_double x = Double (of_int (if even f then f else f + 1) * pow2 (k - 52))"
proof -
  have pos: "0 < x"
    using pow2_pos assms(1) by (rule less_le_trans)
  have fl: "floor_log2 x = k"
    using assms(1,2) by (rule floor_log2_eqI)
  have e: "max (k - 52) (- 1074) = k - 52"
    using assms(3) by simp
  have r: "round_half_even (x / pow2 (k - 52)) = (if even f then f else f + 1)"
    using assms(4) by (rule round_half_even_tieI)
  show ?thesis
    using pos assms(5) by (simp add: round_double_def Let_def fl e r)
qed

lemma Math_round_eqI:
  assumes "of_int n - 1 / 2 \<le> a" and "a < of_int n + 1 / 2"
  shows "Math_round (Double a) = Double (of_int n)"
proof -
  have "\<lfloor>a + 1 / 2\<rfloor> = n"
    using assms by linarith
  then show ?thesis by (simp add: Math_round.simps)
qed

text \<open>
  The doubles of the sample runs: the numbers that the decimal literals denote, and the
  intermediate results of \<^verbatim>\<open>Math.round(amount * rate * 100) / 100\<close>.
\<close>

lemma double_1: "round_double 1 = Double 1"
  using round_double_eqI [where x = "1" and k = "0" and m = 4503599627370496]
  by (simp add: pow2_def)

lemma double_0_85: "round_double (17 / 20) = Double (7656119366529843 / 9007199254740992)"
  using round_double_eqI [where x = "17 / 20" and k = "- 1" and m = 7656119366529843]
  by (simp add: pow2_def)

lemma double_1_50: "round_double (3 / 2) = Double (3 / 2)"
  using round_double_eqI [where x = "3 / 2" and k = "0" and m = 6755399441055744]
  by (simp add: pow2_def)

lemma double_1_234: "round_double (617 / 500) = Double (694680242521899 / 562949953421312)"
  using round_double_eqI [where x = "617 / 500" and k = "0" and m = 5557441940175192]
  by (simp add: pow2_def)

lemma double_1_23: "round_double (123 / 100) = Double (2769713770832855 / 2251799813685248)"
  using round_double_eqI [where x = "123 / 100" and k = "0" and m = 5539427541665710]
  by (simp add: pow2_def)

lemma double_1_27: "round_double (127 / 100) = Double (2859785763380265 / 2251799813685248)"
  using round_double_eqI [where x = "127 / 100" and k = "0" and m = 5719571526760530]
  by (simp add: pow2_def)

lemma double_1_28: "round_double (32 / 25) = Double (5764607523034235 / 4503599627370496)"
  using round_double_eqI [where x = "32 / 25" and k = "0" and m = 5764607523034235]
  by (simp add: pow2_def)

lemma double_2_675: "round_double (107 / 40) = Double (3011782250804019 / 1125899906842624)"
  using round_double_eqI [where x = "107 / 40" and k = "1" and m = 6023564501608038]
  by (simp add: pow2_def)

lemma double_2_67: "round_double (267 / 100) = Double (1503076375634903 / 562949953421312)"
  using round_double_eqI [where x = "267 / 100" and k = "1" and m = 6012305502539612]
  by (simp add: pow2_def)

lemma double_2_68: "round_double (67 / 25) = Double (6034823500676465 / 2251799813685248)"
  using round_double_eqI [where x = "67 / 25" and k = "1" and m = 6034823500676465]
  by (simp add: pow2_def)

lemma double_120: "round_double 120 = Double 120"
  using round_double_eqI [where x = "120" and k = "6" and m = 8444249301319680]
  by (simp add: pow2_def)

lemma double_100: "round_double 100 = Double 100"
  using round_double_eqI [where x = "100" and k = "6" and m = 7036874417766400]
  by (simp add: pow2_def)

lemma double_85: "round_double 85 = Double 85"
  using round_double_eqI [where x = "85" and k = "6" and m = 5981343255101440]
  by (simp add: pow2_def)

lemma cents_120_USD: "round_double 12000 = Double 12000"
  using round_double_eqI [where x = "12000" and k = "13" and m = 6597069766656000]
  by (simp add: pow2_def)

lemma whole_cents_120_USD: "Math_round (Double 12000) = Double 12000"
  using Math_round_eqI [where a = "12000" and n = 12000]
  by simp

lemma cents_100_USD: "round_double 10000 = Double 10000"
  using round_double_eqI [where x = "10000" and k = "13" and m = 5497558138880000]
  by (simp add: pow2_def)

lemma whole_cents_100_USD: "Math_round (Double 10000) = Double 10000"
  using Math_round_eqI [where a = "10000" and n = 10000]
  by simp

lemma product_100_EUR: "round_double (191402984163246075 / 2251799813685248) = Double 85"
  using round_double_eqI [where x = "191402984163246075 / 2251799813685248" and k = "6" and m = 5981343255101440]
  by (simp add: pow2_def)

lemma cents_100_EUR: "round_double 8500 = Double 8500"
  using round_double_eqI [where x = "8500" and k = "13" and m = 4672924418048000]
  by (simp add: pow2_def)

lemma whole_cents_100_EUR: "Math_round (Double 8500) = Double 8500"
  using Math_round_eqI [where a = "8500" and n = 8500]
  by simp

lemma product_1_50_EUR: "round_double (22968358099589529 / 18014398509481984) = Double (2871044762448691 / 2251799813685248)"
  using round_double_eqI [where x = "22968358099589529 / 18014398509481984" and k = "0" and m = 5742089524897382]
  by (simp add: pow2_def)

lemma cents_1_50_EUR: "round_double (71776119061217275 / 562949953421312) = Double (8972014882652159 / 70368744177664)"
  using round_double_eqI [where x = "71776119061217275 / 562949953421312" and k = "6" and m = 8972014882652159]
  by (simp add: pow2_def)

lemma whole_cents_1_50_EUR: "Math_round (Double (8972014882652159 / 70368744177664)) = Double 127"
  using Math_round_eqI [where a = "8972014882652159 / 70368744177664" and n = 127]
  by simp

lemma product_1_234_USD: "round_double (694680242521899 / 562949953421312) = Double (694680242521899 / 562949953421312)"
  using round_double_eqI [where x = "694680242521899 / 562949953421312" and k = "0" and m = 5557441940175192]
  by (simp add: pow2_def)

lemma cents_1_234_USD: "round_double (17367006063047475 / 140737488355328) = Double (4341751515761869 / 35184372088832)"
  using round_double_tieI [where x = "17367006063047475 / 140737488355328" and k = "6" and f = 8683503031523737]
  by (simp add: pow2_def)

lemma whole_cents_1_234_USD: "Math_round (Double (4341751515761869 / 35184372088832)) = Double 123"
  using Math_round_eqI [where a = "4341751515761869 / 35184372088832" and n = 123]
  by simp

lemma product_2_675_CAD: "round_double (3011782250804019 / 1125899906842624) = Double (3011782250804019 / 1125899906842624)"
  using round_double_eqI [where x = "3011782250804019 / 1125899906842624" and k = "1" and m = 6023564501608038]
  by (simp add: pow2_def)

lemma cents_2_675_CAD: "round_double (75294556270100475 / 281474976710656) = Double (535 / 2)"
  using round_double_eqI [where x = "75294556270100475 / 281474976710656" and k = "8" and m = 4705909766881280]
  by (simp add: pow2_def)

lemma whole_cents_2_675_CAD: "Math_round (Double (535 / 2)) = Double 268"
  using Math_round_eqI [where a = "535 / 2" and n = 268]
  by simp

lemmas doubles =
  double_1 double_0_85 double_1_50 double_1_234 double_1_23
  double_1_27 double_1_28 double_2_675 double_2_67 double_2_68
  double_120 double_100 double_85 cents_120_USD whole_cents_120_USD
  cents_100_USD whole_cents_100_USD product_100_EUR cents_100_EUR whole_cents_100_EUR
  product_1_50_EUR cents_1_50_EUR whole_cents_1_50_EUR product_1_234_USD cents_1_234_USD
  whole_cents_1_234_USD product_2_675_CAD cents_2_675_CAD whole_cents_2_675_CAD

section \<open>Approval decisions\<close>

text \<open>
  Claim C4. Deciding a step id that is not in the store answers 404 with an error body
  and leaves the store as it was: no approval step and no expense is written.
\<close>

theorem decide_unknown_step_not_found:
  assumes "s (''approval_step:'' @ approvalId req) = None"
    and "\<not> nullish (json_body req)"
  shows "process_approval num_str now req s =
           (Response 404 (JObj [(''error'', JStr ''Approval not found'')]), s)"
  using assms by (simp add: process_approval_def kv_get_absent error_body_def)

theorem decide_unknown_step_not_found_witness:
  "demo_store (''approval_step:'' @ approvalId (processApproval ''anon'' ''approval-404'' Approved None)) = None
   \<and> \<not> nullish (json_body (processApproval ''anon'' ''approval-404'' Approved None))
   \<and> process_approval decimal ''2024-01-17T08:00:00.000Z''
        (processApproval ''anon'' ''approval-404'' Approved None) demo_store =
       (Response 404 (JObj [(''error'', JStr ''Approval not found'')]), demo_store)"
proof -
  let ?req = "processApproval ''anon'' ''approval-404'' Approved None"
  have absent: "demo_store (''approval_step:'' @ approvalId ?req) = None"
    by (rule demo_store_no_step)
  have body: "\<not> nullish (json_body ?req)"
    by (simp add: processApproval_def json_of_fields_def nullish_def)
  from decide_unknown_step_not_found [where s = demo_store and req = ?req, OF absent body]
    absent body
  show ?thesis by blast
qed

text \<open>What the route does once the step is found.\<close>

lemma process_approval_found:
  assumes "truthy (kv_get s (''approval_step:'' @ approvalId req))"
    and "\<not> nullish (json_body req)"
  shows "process_approval num_str now req s =
     (let status = get_field (json_body req) ''status'';
          approval = kv_get s (''approval_step:'' @ approvalId req);
          updatedApproval = object_literal num_str
            [Spread approval,
             Member ''status'' status,
             Member ''comments'' (js_or (get_field (json_body req) ''comments'') Null),
             Member ''decided_at'' (JStr now)];
          expense_key = ''expense:'' @ to_string num_str (get_field approval ''expense_id'');
          expense = kv_get s expense_key
      in (Response 200 updatedApproval,
          if truthy expense
          then s(''approval_step:'' @ approvalId req \<mapsto> updatedApproval,
                 expense_key \<mapsto> object_literal num_str [Spread expense, Member ''status'' status])
          else s(''approval_step:'' @ approvalId req \<mapsto> updatedApproval)))"
  using assms
  by (simp add: process_approval_def Let_def kv_get_upd kv_set_def)

lemma updatedApproval_fields:
  "get_field (object_literal num_str
      [Spread approval, Member ''status'' st, Member ''comments'' c, Member ''decided_at'' d]) k =
   (if k = ''decided_at'' then d else if k = ''comments'' then c else if k = ''status'' then st
    else get_field (JObj (foldl (\<lambda>acc (k, x). AList.update k x acc) [] (own_props num_str approval))) k)"
  by (simp add: object_literal_def update_conv')

text \<open>
  The updated step and the updated expense, for records that are objects: the new
  properties, and every other property of the record as it was.
\<close>

lemma updatedApproval_object:
  assumes "distinct (map fst fs)"
  shows "\<exists>g. object_literal num_str
            [Spread (JObj fs), Member ''status'' st, Member ''comments'' c, Member ''decided_at'' d]
            = JObj g
          \<and> distinct (map fst g)
          \<and> (\<forall>k. map_of g k =
                (if k = ''decided_at'' then Some d else if k = ''comments'' then Some c
                 else if k = ''status'' then Some st else map_of fs k))"
  using assms
  by (simp add: object_literal_def update_conv' map_of_spread spread_distinct distinct_update
      split: option.splits)

lemma updatedExpense_object:
  assumes "distinct (map fst es)"
  shows "\<exists>h. object_literal num_str [Spread (JObj es), Member ''status'' st] = JObj h
          \<and> distinct (map fst h)
          \<and> (\<forall>k. map_of h k = (if k = ''status'' then Some st else map_of es k))"
  using assms
  by (simp add: object_literal_def update_conv' map_of_spread spread_distinct distinct_update
      split: option.splits)

lemma process_approval_object:
  assumes "kv_get s (''approval_step:'' @ approvalId req) = JObj fs"
    and "distinct (map fst fs)"
    and "\<not> nullish (json_body req)"
  shows "\<exists>g. distinct (map fst g)
          \<and> (\<forall>k. map_of g k =
                (if k = ''decided_at'' then Some (JStr now)
                 else if k = ''comments''
                   then Some (js_or (get_field (json_body req) ''comments'') Null)
                 else if k = ''status'' then Some (get_field (json_body req) ''status'')
                 else map_of fs k))
          \<and> process_approval num_str now req s =
              (Response 200 (JObj g),
               let expense_key = ''expense:'' @ to_string num_str (get_field (JObj fs) ''expense_id'')
               in if truthy (kv_get s expense_key)
                  then s(''approval_step:'' @ approvalId req \<mapsto> JObj g,
                         expense_key \<mapsto> object_literal num_str
                           [Spread (kv_get s expense_key),
                            Member ''status'' (get_field (json_body req) ''status'')])
                  else s(''approval_step:'' @ approvalId req \<mapsto> JObj g))"
proof -
  from updatedApproval_object [OF assms(2)] obtain g where
    g: "object_literal num_str
          [Spread (JObj fs), Member ''status'' (get_field (json_body req) ''status''),
           Member ''comments'' (js_or (get_field (json_body req) ''comments'') Null),
           Member ''decided_at'' (JStr now)] = JObj g"
    and d: "distinct (map fst g)"
    and m: "\<forall>k. map_of g k =
                (if k = ''decided_at'' then Some (JStr now)
                 else if k = ''comments''
                   then Some (js_or (get_field (json_body req) ''comments'') Null)
                 else if k = ''status'' then Some (get_field (json_body req) ''status'')
                 else map_of fs k)"
    by blast
  have found: "truthy (kv_get s (''approval_step:'' @ approvalId req))"
    unfolding assms(1) by simp
  have "process_approval num_str now req s =
              (Response 200 (JObj g),
               let expense_key = ''expense:'' @ to_string num_str (get_field (JObj fs) ''expense_id'')
               in if truthy (kv_get s expense_key)
                  then s(''approval_step:'' @ approvalId req \<mapsto> JObj g,
                         expense_key \<mapsto> object_literal num_str
                           [Spread (kv_get s expense_key),
                            Member ''status'' (get_field (json_body req) ''status'')])
                  else s(''approval_step:'' @ approvalId req \<mapsto> JObj g))"
    unfolding process_approval_found [OF found assms(3)] assms(1) Let_def g ..
  with d m show ?thesis by blast
qed

lemma process_approval_any_caller:
  "process_approval num_str now (req\<lparr>authorization := caller\<rparr>) s = process_approval num_str now req s"
  by (simp add: process_approval_def Let_def)

text \<open>
  Claim C1, as amended. For a step that exists (an object) a decision answers 200 with
  the updated step and stores it: its status is the outcome of the request, its comment
  the request's comment when that is truthy and \<^verbatim>\<open>null\<close> when it is absent or empty,
  \<^verbatim>\<open>decided_at\<close> the time of the decision, and every other property is the stored
  step's. When the step's expense exists, the store changes at the step's and the
  expense's key only, and the new expense is the stored one with its status overwritten
  by the same outcome. The statement holds for every value of \<^verbatim>\<open>status\<close> in the
  body, the client's \<^verbatim>\<open>approved\<close> and \<^verbatim>\<open>rejected\<close> among them.
\<close>

theorem decide_sets_step_and_expense_status:
  assumes "kv_get s (''approval_step:'' @ approvalId req) = JObj fs"
    and "distinct (map fst fs)"
    and "\<not> nullish (json_body req)"
  shows "\<exists>step'.
           fst (process_approval num_str now req s) = Response 200 step'
         \<and> kv_get (snd (process_approval num_str now req s)) (''approval_step:'' @ approvalId req)
             = step'
         \<and> (\<forall>k. get_field step' k =
               (if k = ''decided_at'' then JStr now
                else if k = ''comments''
                  then (if truthy (get_field (json_body req) ''comments'')
                        then get_field (json_body req) ''comments'' else Null)
                else if k = ''status'' then get_field (json_body req) ''status''
                else get_field (JObj fs) k))
         \<and> (\<forall>es. kv_get s (''expense:'' @ to_string num_str (get_field (JObj fs) ''expense_id''))
                    = JObj es \<and> distinct (map fst es) \<longrightarrow>
               (\<exists>expense'.
                  snd (process_approval num_str now req s) =
                    s(''approval_step:'' @ approvalId req \<mapsto> step',
                      ''expense:'' @ to_string num_str (get_field (JObj fs) ''expense_id'')
                        \<mapsto> expense')
                  \<and> (\<forall>k. get_field expense' k =
                        (if k = ''status'' then get_field (json_body req) ''status''
                         else get_field (JObj es) k))))"
proof -
  let ?ek = "''expense:'' @ to_string num_str (get_field (JObj fs) ''expense_id'')"
  from process_approval_object [OF assms, where num_str = num_str and now = now] obtain g where
    m: "\<forall>k. map_of g k =
                (if k = ''decided_at'' then Some (JStr now)
                 else if k = ''comments''
                   then Some (js_or (get_field (json_body req) ''comments'') Null)
                 else if k = ''status'' then Some (get_field (json_body req) ''status'')
                 else map_of fs k)"
    and r: "process_approval num_str now req s =
              (Response 200 (JObj g),
               let expense_key = ?ek
               in if truthy (kv_get s expense_key)
                  then s(''approval_step:'' @ approvalId req \<mapsto> JObj g,
                         expense_key \<mapsto> object_literal num_str
                           [Spread (kv_get s expense_key),
                            Member ''status'' (get_field (json_body req) ''status'')])
                  else s(''approval_step:'' @ approvalId req \<mapsto> JObj g))"
    by blast
  have a: "fst (process_approval num_str now req s) = Response 200 (JObj g)"
    by (simp add: r)
  have b: "kv_get (snd (process_approval num_str now req s)) (''approval_step:'' @ approvalId req)
      = JObj g"
    by (simp add: r Let_def kv_get_upd)
  have c: "get_field (JObj g) k =
               (if k = ''decided_at'' then JStr now
                else if k = ''comments''
                  then (if truthy (get_field (json_body req) ''comments'')
                        then get_field (json_body req) ''comments'' else Null)
                else if k = ''status'' then get_field (json_body req) ''status''
                else get_field (JObj fs) k)" for k
    by (simp add: m js_or_def)
  have e: "\<exists>expense'.
              snd (process_approval num_str now req s) =
                s(''approval_step:'' @ approvalId req \<mapsto> JObj g, ?ek \<mapsto> expense')
              \<and> (\<forall>k. get_field expense' k =
                    (if k = ''status'' then get_field (json_body req) ''status''
                     else get_field (JObj es) k))"
    if es: "kv_get s ?ek = JObj es" and des: "distinct (map fst es)" for es
  proof -
    from updatedExpense_object [OF des] obtain h where
      h: "object_literal num_str [Spread (JObj es), Member ''status'' (get_field (json_body req) ''status'')]
            = JObj h"
      and mh: "\<forall>k. map_of h k =
                 (if k = ''status'' then Some (get_field (json_body req) ''status'') else map_of es k)"
      by blast
    have "snd (process_approval num_str now req s) =
            s(''approval_step:'' @ approvalId req \<mapsto> JObj g, ?ek \<mapsto> JObj h)"
      unfolding r Let_def es h by simp
    moreover have "\<forall>k. get_field (JObj h) k =
                    (if k = ''status'' then get_field (json_body req) ''status''
                     else get_field (JObj es) k)"
      by (simp add: mh)
    ultimately show ?thesis by blast
  qed
  from a b c e show ?thesis by blast
qed

theorem decide_sets_step_and_expense_status_witness:
  "kv_get submitted_store (''approval_step:'' @ approvalId approve_request) = sample_step
   \<and> \<not> nullish (json_body approve_request)
   \<and> kv_get submitted_store ''expense:expense-1705400000000'' = sample_expense
   \<and> (\<exists>step' expense'.
         fst (process_approval decimal ''2024-01-17T08:00:00.000Z'' approve_request submitted_store)
           = Response 200 step'
         \<and> snd (process_approval decimal ''2024-01-17T08:00:00.000Z'' approve_request submitted_store)
           = submitted_store(''approval_step:approval-1705400000001'' \<mapsto> step',
                             ''expense:expense-1705400000000'' \<mapsto> expense')
         \<and> get_field step' ''status'' = JStr ''approved''
         \<and> get_field step' ''comments'' = JStr ''Looks fine''
         \<and> get_field step' ''decided_at'' = JStr ''2024-01-17T08:00:00.000Z''
         \<and> get_field step' ''approver_id'' = JStr ''manager-001''
         \<and> get_field step' ''expense_id'' = JStr ''expense-1705400000000''
         \<and> get_field step' ''sequence'' = JNum 1
         \<and> get_field expense' ''status'' = JStr ''approved''
         \<and> get_field expense' ''employee_id'' = JStr ''employee-001''
         \<and> get_field expense' ''amount'' = JNum 120
         \<and> get_field expense' ''amount_in_company_currency'' = JNum 120)"
proof -
  let ?fs = "[(''id'', JStr ''approval-1705400000001''),
           (''expense_id'', JStr ''expense-1705400000000''),
           (''approver_id'', JStr ''manager-001''), (''status'', JStr ''pending''),
           (''sequence'', JNum 1), (''created_at'', JStr ''2024-01-16T10:13:20.001Z'')]"
  let ?es = "[(''id'', JStr ''expense-1705400000000''), (''employee_id'', JStr ''employee-001''),
           (''amount'', JNum 120), (''currency'', JStr ''USD''),
           (''amount_in_company_currency'', JNum 120), (''category'', JStr ''Transportation''),
           (''description'', JStr ''Uber to client meeting''), (''date'', JStr ''2024-01-16''),
           (''receipt_url'', Null), (''status'', JStr ''pending''),
           (''created_at'', JStr ''2024-01-16T10:13:20.000Z'')]"
  let ?r = "process_approval decimal ''2024-01-17T08:00:00.000Z'' approve_request submitted_store"
  have step: "kv_get submitted_store (''approval_step:'' @ approvalId approve_request) = JObj ?fs"
    by (simp add: approve_request_fields submitted_store_step sample_step_def)
  have d: "distinct (map fst ?fs)"
    by simp
  have body: "\<not> nullish (json_body approve_request)"
    by (rule approve_request_fields)
  have expense: "kv_get submitted_store
      (''expense:'' @ to_string decimal (get_field (JObj ?fs) ''expense_id'')) = JObj ?es
      \<and> distinct (map fst ?es)"
    by (simp add: submitted_store_expense sample_expense_def)
  from decide_sets_step_and_expense_status
    [where s = submitted_store and req = approve_request and num_str = decimal
       and now = "''2024-01-17T08:00:00.000Z''" and fs = ?fs, OF step d body]
  obtain step' where a: "fst ?r = Response 200 step'"
    and c: "\<forall>k. get_field step' k =
               (if k = ''decided_at'' then JStr ''2024-01-17T08:00:00.000Z''
                else if k = ''comments''
                  then (if truthy (get_field (json_body approve_request) ''comments'')
                        then get_field (json_body approve_request) ''comments'' else Null)
                else if k = ''status'' then get_field (json_body approve_request) ''status''
                else get_field (JObj ?fs) k)"
    and e: "\<forall>es. kv_get submitted_store
                 (''expense:'' @ to_string decimal (get_field (JObj ?fs) ''expense_id''))
                    = JObj es \<and> distinct (map fst es) \<longrightarrow>
               (\<exists>expense'.
                  snd ?r =
                    submitted_store(''approval_step:'' @ approvalId approve_request \<mapsto> step',
                      ''expense:'' @ to_string decimal (get_field (JObj ?fs) ''expense_id'')
                        \<mapsto> expense')
                  \<and> (\<forall>k. get_field expense' k =
                        (if k = ''status'' then get_field (json_body approve_request) ''status''
                         else get_field (JObj es) k)))"
    by blast
  from e [rule_format, OF expense] obtain expense' where
    s: "snd ?r =
          submitted_store(''approval_step:'' @ approvalId approve_request \<mapsto> step',
            ''expense:'' @ to_string decimal (get_field (JObj ?fs) ''expense_id'') \<mapsto> expense')"
    and f: "\<forall>k. get_field expense' k =
              (if k = ''status'' then get_field (json_body approve_request) ''status''
               else get_field (JObj ?es) k)"
    by blast
  have "fst ?r = Response 200 step'
         \<and> snd ?r = submitted_store(''approval_step:approval-1705400000001'' \<mapsto> step',
                             ''expense:expense-1705400000000'' \<mapsto> expense')
         \<and> get_field step' ''status'' = JStr ''approved''
         \<and> get_field step' ''comments'' = JStr ''Looks fine''
         \<and> get_field step' ''decided_at'' = JStr ''2024-01-17T08:00:00.000Z''
         \<and> get_field step' ''approver_id'' = JStr ''manager-001''
         \<and> get_field step' ''expense_id'' = JStr ''expense-1705400000000''
         \<and> get_field step' ''sequence'' = JNum 1
         \<and> get_field expense' ''status'' = JStr ''approved''
         \<and> get_field expense' ''employee_id'' = JStr ''employee-001''
         \<and> get_field expense' ''amount'' = JNum 120
         \<and> get_field expense' ''amount_in_company_currency'' = JNum 120"
    using a s by (simp add: c f approve_request_fields)
  then have "\<exists>step' expense'. fst ?r = Response 200 step'
         \<and> snd ?r = submitted_store(''approval_step:approval-1705400000001'' \<mapsto> step',
                             ''expense:expense-1705400000000'' \<mapsto> expense')
         \<and> get_field step' ''status'' = JStr ''approved''
         \<and> get_field step' ''comments'' = JStr ''Looks fine''
         \<and> get_field step' ''decided_at'' = JStr ''2024-01-17T08:00:00.000Z''
         \<and> get_field step' ''approver_id'' = JStr ''manager-001''
         \<and> get_field step' ''expense_id'' = JStr ''expense-1705400000000''
         \<and> get_field step' ''sequence'' = JNum 1
         \<and> get_field expense' ''status'' = JStr ''approved''
         \<and> get_field expense' ''employee_id'' = JStr ''employee-001''
         \<and> get_field expense' ''amount'' = JNum 120
         \<and> get_field expense' ''amount_in_company_currency'' = JNum 120"
    by blast
  moreover have "kv_get submitted_store (''approval_step:'' @ approvalId approve_request) = sample_step"
    by (simp add: approve_request_fields submitted_store_step)
  moreover note body submitted_store_expense
  ultimately show ?thesis by blast
qed

text \<open>
  Claim C1 as stated fails where it says that the decision stores the comment. The
  approvals page sends the comment it holds, the empty string when none was typed; the
  body carries it as \<^verbatim>\<open>""\<close>, and the route stores \<^verbatim>\<open>null\<close> in its place.
\<close>

theorem decide_stores_empty_comment_as_null:
  "get_field (json_body empty_comment_request) ''comments'' = JStr []
   \<and> kv_get submitted_store ''approval_step:approval-1705400000001'' = sample_step
   \<and> fst (process_approval decimal ''2024-01-17T08:00:00.000Z'' empty_comment_request submitted_store)
        = Response 200
            (JObj [(''id'', JStr ''approval-1705400000001''),
                   (''expense_id'', JStr ''expense-1705400000000''),
                   (''approver_id'', JStr ''manager-001''), (''status'', JStr ''approved''),
                   (''sequence'', JNum 1), (''created_at'', JStr ''2024-01-16T10:13:20.001Z''),
                   (''comments'', Null), (''decided_at'', JStr ''2024-01-17T08:00:00.000Z'')])
   \<and> get_field
        (kv_get (snd (process_approval decimal ''2024-01-17T08:00:00.000Z'' empty_comment_request
                        submitted_store))
           ''approval_step:approval-1705400000001'')
        ''comments'' = Null"
proof -
  have found: "truthy (kv_get submitted_store (''approval_step:'' @ approvalId empty_comment_request))"
    by (simp add: empty_comment_request_fields submitted_store_step sample_step_def)
  have r: "fst (process_approval decimal ''2024-01-17T08:00:00.000Z'' empty_comment_request
                  submitted_store)
        = Response 200
            (JObj [(''id'', JStr ''approval-1705400000001''),
                   (''expense_id'', JStr ''expense-1705400000000''),
                   (''approver_id'', JStr ''manager-001''), (''status'', JStr ''approved''),
                   (''sequence'', JNum 1), (''created_at'', JStr ''2024-01-16T10:13:20.001Z''),
                   (''comments'', Null), (''decided_at'', JStr ''2024-01-17T08:00:00.000Z'')])"
    by (simp add: process_approval_found [OF found empty_comment_request_fields(2)] Let_def
        empty_comment_request_fields submitted_store_step sample_step_def object_literal_def
        js_or_def)
  have s: "get_field
        (kv_get (snd (process_approval decimal ''2024-01-17T08:00:00.000Z'' empty_comment_request
                        submitted_store))
           ''approval_step:approval-1705400000001'')
        ''comments'' = Null"
    by (simp add: process_approval_found [OF found empty_comment_request_fields(2)] Let_def
        empty_comment_request_fields kv_get_upd updatedApproval_fields js_or_def)
  from empty_comment_request_fields(4) submitted_store_step r s show ?thesis
    by blast
qed

text \<open>
  Claim C10. When the step exists (an object) and the expense it refers to is not in the
  store, the decision still answers 200 with the updated step: status, comments and
  \<^verbatim>\<open>decided_at\<close> are the decision's, every other property is the stored step's. The
  store changes at the step's key only, so no expense record is written.
\<close>

theorem decide_with_missing_expense_updates_step_only:
  assumes "kv_get s (''approval_step:'' @ approvalId req) = JObj fs"
    and "distinct (map fst fs)"
    and "\<not> nullish (json_body req)"
    and "s (''expense:'' @ to_string num_str (get_field (JObj fs) ''expense_id'')) = None"
  shows "\<exists>step'.
           process_approval num_str now req s =
             (Response 200 step', s(''approval_step:'' @ approvalId req \<mapsto> step'))
         \<and> (\<forall>k. get_field step' k =
               (if k = ''decided_at'' then JStr now
                else if k = ''comments''
                  then (if truthy (get_field (json_body req) ''comments'')
                        then get_field (json_body req) ''comments'' else Null)
                else if k = ''status'' then get_field (json_body req) ''status''
                else get_field (JObj fs) k))"
proof -
  let ?ek = "''expense:'' @ to_string num_str (get_field (JObj fs) ''expense_id'')"
  from process_approval_object [OF assms(1-3), where num_str = num_str and now = now] obtain g where
    m: "\<forall>k. map_of g k =
                (if k = ''decided_at'' then Some (JStr now)
                 else if k = ''comments''
                   then Some (js_or (get_field (json_body req) ''comments'') Null)
                 else if k = ''status'' then Some (get_field (json_body req) ''status'')
                 else map_of fs k)"
    and r: "process_approval num_str now req s =
              (Response 200 (JObj g),
               let expense_key = ?ek
               in if truthy (kv_get s expense_key)
                  then s(''approval_step:'' @ approvalId req \<mapsto> JObj g,
                         expense_key \<mapsto> object_literal num_str
                           [Spread (kv_get s expense_key),
                            Member ''status'' (get_field (json_body req) ''status'')])
                  else s(''approval_step:'' @ approvalId req \<mapsto> JObj g))"
    by blast
  have absent: "kv_get s ?ek = Undefined"
    using assms(4) by (rule kv_get_absent)
  have a: "process_approval num_str now req s =
             (Response 200 (JObj g), s(''approval_step:'' @ approvalId req \<mapsto> JObj g))"
    unfolding r Let_def absent by simp
  have c: "\<forall>k. get_field (JObj g) k =
               (if k = ''decided_at'' then JStr now
                else if k = ''comments''
                  then (if truthy (get_field (json_body req) ''comments'')
                        then get_field (json_body req) ''comments'' else Null)
                else if k = ''status'' then get_field (json_body req) ''status''
                else get_field (JObj fs) k)"
    by (simp add: m js_or_def)
  from a c show ?thesis by blast
qed

theorem decide_with_missing_expense_updates_step_only_witness:
  "kv_get orphan_step_store (''approval_step:'' @ approvalId approve_request) = sample_step
   \<and> \<not> nullish (json_body approve_request)
   \<and> orphan_step_store ''expense:expense-1705400000000'' = None
   \<and> (\<exists>step'.
         process_approval decimal ''2024-01-17T08:00:00.000Z'' approve_request orphan_step_store =
           (Response 200 step', orphan_step_store(''approval_step:approval-1705400000001'' \<mapsto> step'))
         \<and> get_field step' ''status'' = JStr ''approved''
         \<and> get_field step' ''comments'' = JStr ''Looks fine''
         \<and> get_field step' ''decided_at'' = JStr ''2024-01-17T08:00:00.000Z''
         \<and> get_field step' ''approver_id'' = JStr ''manager-001''
         \<and> get_field step' ''expense_id'' = JStr ''expense-1705400000000''
         \<and> get_field step' ''sequence'' = JNum 1)"
proof -
  let ?fs = "[(''id'', JStr ''approval-1705400000001''),
           (''expense_id'', JStr ''expense-1705400000000''),
           (''approver_id'', JStr ''manager-001''), (''status'', JStr ''pending''),
           (''sequence'', JNum 1), (''created_at'', JStr ''2024-01-16T10:13:20.001Z'')]"
  have step: "kv_get orphan_step_store (''approval_step:'' @ approvalId approve_request) = JObj ?fs"
    by (simp add: approve_request_fields orphan_step_store_step sample_step_def)
  have d: "distinct (map fst ?fs)"
    by simp
  have body: "\<not> nullish (json_body approve_request)"
    by (rule approve_request_fields)
  have absent: "orphan_step_store
      (''expense:'' @ to_string decimal (get_field (JObj ?fs) ''expense_id'')) = None"
    by (simp add: orphan_step_store_no_expense)
  from decide_with_missing_expense_updates_step_only
    [where s = orphan_step_store and req = approve_request and num_str = decimal
       and now = "''2024-01-17T08:00:00.000Z''" and fs = ?fs, OF step d body absent]
  obtain step' where
    a: "process_approval decimal ''2024-01-17T08:00:00.000Z'' approve_request orphan_step_store =
          (Response 200 step',
           orphan_step_store(''approval_step:'' @ approvalId approve_request \<mapsto> step'))"
    and c: "\<forall>k. get_field step' k =
               (if k = ''decided_at'' then JStr ''2024-01-17T08:00:00.000Z''
                else if k = ''comments''
                  then (if truthy (get_field (json_body approve_request) ''comments'')
                        then get_field (json_body approve_request) ''comments'' else Null)
                else if k = ''status'' then get_field (json_body approve_request) ''status''
                else get_field (JObj ?fs) k)"
    by blast
  have "process_approval decimal ''2024-01-17T08:00:00.000Z'' approve_request orphan_step_store =
           (Response 200 step', orphan_step_store(''approval_step:approval-1705400000001'' \<mapsto> step'))
         \<and> get_field step' ''status'' = JStr ''approved''
         \<and> get_field step' ''comments'' = JStr ''Looks fine''
         \<and> get_field step' ''decided_at'' = JStr ''2024-01-17T08:00:00.000Z''
         \<and> get_field step' ''approver_id'' = JStr ''manager-001''
         \<and> get_field step' ''expense_id'' = JStr ''expense-1705400000000''
         \<and> get_field step' ''sequence'' = JNum 1"
    using a by (simp add: c approve_request_fields)
  then have "\<exists>step'.
         process_approval decimal ''2024-01-17T08:00:00.000Z'' approve_request orphan_step_store =
           (Response 200 step', orphan_step_store(''approval_step:approval-1705400000001'' \<mapsto> step'))
         \<and> get_field step' ''status'' = JStr ''approved''
         \<and> get_field step' ''comments'' = JStr ''Looks fine''
         \<and> get_field step' ''decided_at'' = JStr ''2024-01-17T08:00:00.000Z''
         \<and> get_field step' ''approver_id'' = JStr ''manager-001''
         \<and> get_field step' ''expense_id'' = JStr ''expense-1705400000000''
         \<and> get_field step' ''sequence'' = JNum 1"
    by blast
  moreover have "kv_get orphan_step_store (''approval_step:'' @ approvalId approve_request) = sample_step"
    by (simp add: approve_request_fields orphan_step_store_step)
  moreover note body orphan_step_store_no_expense
  ultimately show ?thesis by blast
qed

text \<open>
  Claim C8. A decision checks neither the step's current status nor who is calling.
  After a first decision on a step, a second one on the same step, by any caller, again
  answers 200 with the updated step: status, comments and \<^verbatim>\<open>decided_at\<close> are those
  of the second decision, every other property is the step's as it was before the first.
  When the step's expense exists, the two decisions leave the store changed at the step's
  and the expense's key only, and the expense is the one stored before, with its status
  overwritten by the second outcome. The answer is the same for every
  \<^verbatim>\<open>Authorization\<close> header.
\<close>

theorem second_decision_overwrites:
  assumes "kv_get s (''approval_step:'' @ approvalId req1) = JObj fs"
    and "distinct (map fst fs)"
    and "approvalId req2 = approvalId req1"
    and "\<not> nullish (json_body req1)" and "\<not> nullish (json_body req2)"
  shows "let step_key = ''approval_step:'' @ approvalId req1;
             expense_key = ''expense:'' @ to_string num_str (get_field (JObj fs) ''expense_id'');
             s1 = snd (process_approval num_str now1 req1 s);
             r2 = process_approval num_str now2 req2 s1
         in (\<exists>step2.
               fst r2 = Response 200 step2
               \<and> kv_get (snd r2) step_key = step2
               \<and> (\<forall>k. get_field step2 k =
                     (if k = ''decided_at'' then JStr now2
                      else if k = ''comments''
                        then (if truthy (get_field (json_body req2) ''comments'')
                              then get_field (json_body req2) ''comments'' else Null)
                      else if k = ''status'' then get_field (json_body req2) ''status''
                      else get_field (JObj fs) k))
               \<and> (\<forall>es. kv_get s expense_key = JObj es \<and> distinct (map fst es) \<longrightarrow>
                     (\<exists>expense2.
                        snd r2 = s(step_key \<mapsto> step2, expense_key \<mapsto> expense2)
                        \<and> (\<forall>k. get_field expense2 k =
                              (if k = ''status'' then get_field (json_body req2) ''status''
                               else get_field (JObj es) k)))))
            \<and> (\<forall>caller. process_approval num_str now2 (req2\<lparr>authorization := caller\<rparr>) s1 = r2)"
proof -
  let ?sk = "''approval_step:'' @ approvalId req1"
  let ?ek = "''expense:'' @ to_string num_str (get_field (JObj fs) ''expense_id'')"
  let ?s1 = "snd (process_approval num_str now1 req1 s)"
  let ?r2 = "process_approval num_str now2 req2 ?s1"
  let ?st1 = "get_field (json_body req1) ''status''"
  let ?st2 = "get_field (json_body req2) ''status''"
  from process_approval_object [OF assms(1,2,4), where num_str = num_str and now = now1]
  obtain g1 where d1: "distinct (map fst g1)"
    and m1: "\<forall>k. map_of g1 k =
                (if k = ''decided_at'' then Some (JStr now1)
                 else if k = ''comments''
                   then Some (js_or (get_field (json_body req1) ''comments'') Null)
                 else if k = ''status'' then Some ?st1
                 else map_of fs k)"
    and r1: "process_approval num_str now1 req1 s =
              (Response 200 (JObj g1),
               let expense_key = ?ek
               in if truthy (kv_get s expense_key)
                  then s(?sk \<mapsto> JObj g1,
                         expense_key \<mapsto> object_literal num_str
                           [Spread (kv_get s expense_key), Member ''status'' ?st1])
                  else s(?sk \<mapsto> JObj g1))"
    by blast
  have s1: "?s1 = (if truthy (kv_get s ?ek)
                   then s(?sk \<mapsto> JObj g1,
                          ?ek \<mapsto> object_literal num_str [Spread (kv_get s ?ek), Member ''status'' ?st1])
                   else s(?sk \<mapsto> JObj g1))"
    unfolding r1 Let_def by simp
  have step1: "kv_get ?s1 (''approval_step:'' @ approvalId req2) = JObj g1"
    unfolding s1 assms(3) by (simp add: kv_get_upd)
  have same: "get_field (JObj g1) ''expense_id'' = get_field (JObj fs) ''expense_id''"
    by (simp add: m1)
  from process_approval_object [OF step1 d1 assms(5), where num_str = num_str and now = now2]
  obtain g2 where
    m2: "\<forall>k. map_of g2 k =
                (if k = ''decided_at'' then Some (JStr now2)
                 else if k = ''comments''
                   then Some (js_or (get_field (json_body req2) ''comments'') Null)
                 else if k = ''status'' then Some ?st2
                 else map_of g1 k)"
    and r2: "?r2 =
              (Response 200 (JObj g2),
               let expense_key = ''expense:'' @ to_string num_str (get_field (JObj g1) ''expense_id'')
               in if truthy (kv_get ?s1 expense_key)
                  then ?s1(''approval_step:'' @ approvalId req2 \<mapsto> JObj g2,
                         expense_key \<mapsto> object_literal num_str
                           [Spread (kv_get ?s1 expense_key), Member ''status'' ?st2])
                  else ?s1(''approval_step:'' @ approvalId req2 \<mapsto> JObj g2))"
    by blast
  have r2': "?r2 =
              (Response 200 (JObj g2),
               if truthy (kv_get ?s1 ?ek)
               then ?s1(?sk \<mapsto> JObj g2,
                        ?ek \<mapsto> object_literal num_str [Spread (kv_get ?s1 ?ek), Member ''status'' ?st2])
               else ?s1(?sk \<mapsto> JObj g2))"
    unfolding r2 Let_def same assms(3) ..
  have a: "fst ?r2 = Response 200 (JObj g2)"
    unfolding r2' by simp
  have b: "kv_get (snd ?r2) ?sk = JObj g2"
    unfolding r2' by (simp add: kv_get_upd)
  have c: "\<forall>k. get_field (JObj g2) k =
                     (if k = ''decided_at'' then JStr now2
                      else if k = ''comments''
                        then (if truthy (get_field (json_body req2) ''comments'')
                              then get_field (json_body req2) ''comments'' else Null)
                      else if k = ''status'' then ?st2
                      else get_field (JObj fs) k)"
    by (simp add: m2 m1 js_or_def)
  have e: "\<exists>expense2.
              snd ?r2 = s(?sk \<mapsto> JObj g2, ?ek \<mapsto> expense2)
              \<and> (\<forall>k. get_field expense2 k =
                    (if k = ''status'' then ?st2 else get_field (JObj es) k))"
    if es: "kv_get s ?ek = JObj es" and des: "distinct (map fst es)" for es
  proof -
    from updatedExpense_object [OF des] obtain h1 where
      h1: "object_literal num_str [Spread (JObj es), Member ''status'' ?st1] = JObj h1"
      and dh1: "distinct (map fst h1)"
      and mh1: "\<forall>k. map_of h1 k = (if k = ''status'' then Some ?st1 else map_of es k)"
      by blast
    from updatedExpense_object [OF dh1] obtain h2 where
      h2: "object_literal num_str [Spread (JObj h1), Member ''status'' ?st2] = JObj h2"
      and mh2: "\<forall>k. map_of h2 k = (if k = ''status'' then Some ?st2 else map_of h1 k)"
      by blast
    have s1': "?s1 = s(?sk \<mapsto> JObj g1, ?ek \<mapsto> JObj h1)"
      unfolding s1 es h1 by simp
    have e1: "kv_get ?s1 ?ek = JObj h1"
      unfolding s1' by (simp add: kv_get_upd)
    have "snd ?r2 = ?s1(?sk \<mapsto> JObj g2, ?ek \<mapsto> JObj h2)"
      unfolding r2' e1 h2 by simp
    also have "\<dots> = s(?sk \<mapsto> JObj g2, ?ek \<mapsto> JObj h2)"
      unfolding s1' by (rule ext) simp
    finally have "snd ?r2 = s(?sk \<mapsto> JObj g2, ?ek \<mapsto> JObj h2)" .
    moreover have "\<forall>k. get_field (JObj h2) k =
                    (if k = ''status'' then ?st2 else get_field (JObj es) k)"
      by (simp add: mh2 mh1)
    ultimately show ?thesis by blast
  qed
  have f: "\<forall>caller. process_approval num_str now2 (req2\<lparr>authorization := caller\<rparr>) ?s1 = ?r2"
    by (simp add: process_approval_any_caller)
  from a b c e have "\<exists>step2.
               fst ?r2 = Response 200 step2
               \<and> kv_get (snd ?r2) ?sk = step2
               \<and> (\<forall>k. get_field step2 k =
                     (if k = ''decided_at'' then JStr now2
                      else if k = ''comments''
                        then (if truthy (get_field (json_body req2) ''comments'')
                              then get_field (json_body req2) ''comments'' else Null)
                      else if k = ''status'' then ?st2
                      else get_field (JObj fs) k))
               \<and> (\<forall>es. kv_get s ?ek = JObj es \<and> distinct (map fst es) \<longrightarrow>
                     (\<exists>expense2.
                        snd ?r2 = s(?sk \<mapsto> step2, ?ek \<mapsto> expense2)
                        \<and> (\<forall>k. get_field expense2 k =
                              (if k = ''status'' then ?st2 else get_field (JObj es) k))))"
    by blast
  with f show ?thesis
    unfolding Let_def by blast
qed

theorem second_decision_overwrites_witness:
  "kv_get submitted_store (''approval_step:'' @ approvalId approve_request) = sample_step
   \<and> approvalId reject_request = approvalId approve_request
   \<and> authorization reject_request \<noteq> authorization approve_request
   \<and> \<not> nullish (json_body approve_request) \<and> \<not> nullish (json_body reject_request)
   \<and> kv_get submitted_store ''expense:expense-1705400000000'' = sample_expense
   \<and> (\<exists>step2 expense2.
         fst (process_approval decimal ''2024-01-18T08:00:00.000Z'' reject_request
               (snd (process_approval decimal ''2024-01-17T08:00:00.000Z'' approve_request
                       submitted_store)))
           = Response 200 step2
         \<and> snd (process_approval decimal ''2024-01-18T08:00:00.000Z'' reject_request
               (snd (process_approval decimal ''2024-01-17T08:00:00.000Z'' approve_request
                       submitted_store)))
           = submitted_store(''approval_step:approval-1705400000001'' \<mapsto> step2,
                             ''expense:expense-1705400000000'' \<mapsto> expense2)
         \<and> get_field step2 ''status'' = JStr ''rejected''
         \<and> get_field step2 ''comments'' = Null
         \<and> get_field step2 ''decided_at'' = JStr ''2024-01-18T08:00:00.000Z''
         \<and> get_field step2 ''approver_id'' = JStr ''manager-001''
         \<and> get_field step2 ''expense_id'' = JStr ''expense-1705400000000''
         \<and> get_field step2 ''sequence'' = JNum 1
         \<and> get_field expense2 ''status'' = JStr ''rejected''
         \<and> get_field expense2 ''employee_id'' = JStr ''employee-001''
         \<and> get_field expense2 ''amount'' = JNum 120
         \<and> get_field expense2 ''amount_in_company_currency'' = JNum 120)"
proof -
  let ?fs = "[(''id'', JStr ''approval-1705400000001''),
           (''expense_id'', JStr ''expense-1705400000000''),
           (''approver_id'', JStr ''manager-001''), (''status'', JStr ''pending''),
           (''sequence'', JNum 1), (''created_at'', JStr ''2024-01-16T10:13:20.001Z'')]"
  let ?es = "[(''id'', JStr ''expense-1705400000000''), (''employee_id'', JStr ''employee-001''),
           (''amount'', JNum 120), (''currency'', JStr ''USD''),
           (''amount_in_company_currency'', JNum 120), (''category'', JStr ''Transportation''),
           (''description'', JStr ''Uber to client meeting''), (''date'', JStr ''2024-01-16''),
           (''receipt_url'', Null), (''status'', JStr ''pending''),
           (''created_at'', JStr ''2024-01-16T10:13:20.000Z'')]"
  let ?r2 = "process_approval decimal ''2024-01-18T08:00:00.000Z'' reject_request
               (snd (process_approval decimal ''2024-01-17T08:00:00.000Z'' approve_request
                       submitted_store))"
  let ?sk = "''approval_step:'' @ approvalId approve_request"
  let ?ek = "''expense:'' @ to_string decimal (get_field (JObj ?fs) ''expense_id'')"
  have step: "kv_get submitted_store ?sk = JObj ?fs"
    by (simp add: approve_request_fields submitted_store_step sample_step_def)
  have d: "distinct (map fst ?fs)"
    by simp
  have same: "approvalId reject_request = approvalId approve_request"
    by (simp add: approve_request_fields reject_request_fields)
  have callers: "authorization reject_request \<noteq> authorization approve_request"
    by (simp add: approve_request_def reject_request_def processApproval_def)
  have expense: "kv_get submitted_store ?ek = JObj ?es \<and> distinct (map fst ?es)"
    by (simp add: submitted_store_expense sample_expense_def)
  from second_decision_overwrites
    [where s = submitted_store and ?req1.0 = approve_request and ?req2.0 = reject_request
       and num_str = decimal and fs = ?fs
       and ?now1.0 = "''2024-01-17T08:00:00.000Z''" and ?now2.0 = "''2024-01-18T08:00:00.000Z''",
     OF step d same approve_request_fields(2) reject_request_fields(2), unfolded Let_def,
     THEN conjunct1]
  obtain step2 where a: "fst ?r2 = Response 200 step2"
    and c: "\<forall>k. get_field step2 k =
                     (if k = ''decided_at'' then JStr ''2024-01-18T08:00:00.000Z''
                      else if k = ''comments''
                        then (if truthy (get_field (json_body reject_request) ''comments'')
                              then get_field (json_body reject_request) ''comments'' else Null)
                      else if k = ''status'' then get_field (json_body reject_request) ''status''
                      else get_field (JObj ?fs) k)"
    and e: "\<forall>es. kv_get submitted_store ?ek = JObj es \<and> distinct (map fst es) \<longrightarrow>
                     (\<exists>expense2.
                        snd ?r2 = submitted_store(?sk \<mapsto> step2, ?ek \<mapsto> expense2)
                        \<and> (\<forall>k. get_field expense2 k =
                              (if k = ''status'' then get_field (json_body reject_request) ''status''
                               else get_field (JObj es) k)))"
    by blast
  from e [rule_format, OF expense] obtain expense2 where
    s: "snd ?r2 = submitted_store(?sk \<mapsto> step2, ?ek \<mapsto> expense2)"
    and f: "\<forall>k. get_field expense2 k =
              (if k = ''status'' then get_field (json_body reject_request) ''status''
               else get_field (JObj ?es) k)"
    by blast
  have "fst ?r2 = Response 200 step2
         \<and> snd ?r2 = submitted_store(''approval_step:approval-1705400000001'' \<mapsto> step2,
                             ''expense:expense-1705400000000'' \<mapsto> expense2)
         \<and> get_field step2 ''status'' = JStr ''rejected''
         \<and> get_field step2 ''comments'' = Null
         \<and> get_field step2 ''decided_at'' = JStr ''2024-01-18T08:00:00.000Z''
         \<and> get_field step2 ''approver_id'' = JStr ''manager-001''
         \<and> get_field step2 ''expense_id'' = JStr ''expense-1705400000000''
         \<and> get_field step2 ''sequence'' = JNum 1
         \<and> get_field expense2 ''status'' = JStr ''rejected''
         \<and> get_field expense2 ''employee_id'' = JStr ''employee-001''
         \<and> get_field expense2 ''amount'' = JNum 120
         \<and> get_field expense2 ''amount_in_company_currency'' = JNum 120"
    using a s by (simp add: c f approve_request_fields reject_request_fields)
  then have "\<exists>step2 expense2. fst ?r2 = Response 200 step2
         \<and> snd ?r2 = submitted_store(''approval_step:approval-1705400000001'' \<mapsto> step2,
                             ''expense:expense-1705400000000'' \<mapsto> expense2)
         \<and> get_field step2 ''status'' = JStr ''rejected''
         \<and> get_field step2 ''comments'' = Null
         \<and> get_field step2 ''decided_at'' = JStr ''2024-01-18T08:00:00.000Z''
         \<and> get_field step2 ''approver_id'' = JStr ''manager-001''
         \<and> get_field step2 ''expense_id'' = JStr ''expense-1705400000000''
         \<and> get_field step2 ''sequence'' = JNum 1
         \<and> get_field expense2 ''status'' = JStr ''rejected''
         \<and> get_field expense2 ''employee_id'' = JStr ''employee-001''
         \<and> get_field expense2 ''amount'' = JNum 120
         \<and> get_field expense2 ''amount_in_company_currency'' = JNum 120"
    by blast
  moreover have "kv_get submitted_store ?sk = sample_step"
    by (simp add: approve_request_fields submitted_store_step)
  moreover note same callers approve_request_fields(2) reject_request_fields(2)
    submitted_store_expense
  ultimately show ?thesis by blast
qed

section \<open>Expense submission\<close>

text \<open>What the submission route does with a body that is not null.\<close>

lemma create_expense_object:
  assumes "\<not> nullish expenseData"
  shows "create_expense num_str clk expenseData s =
     (let expenseId = ''expense-'' @ num_str (of_nat (expense_now clk));
          expense = object_literal num_str
            [Member ''id'' (JStr expenseId),
             Spread expenseData,
             Member ''status'' (JStr ''pending''),
             Member ''created_at'' (JStr (expense_created_at clk))];
          user = kv_get s (''user:'' @ to_string num_str (get_field expenseData ''employee_id''))
      in (Response 200 expense,
          if truthy user \<and> truthy (get_field user ''manager_id'')
          then s(''expense:'' @ expenseId \<mapsto> expense,
                 ''approval_step:approval-'' @ num_str (of_nat (approval_now clk)) \<mapsto>
                   object_literal num_str
                     [Member ''id'' (JStr (''approval-'' @ num_str (of_nat (approval_now clk)))),
                      Member ''expense_id'' (JStr expenseId),
                      Member ''approver_id'' (get_field user ''manager_id''),
                      Member ''status'' (JStr ''pending''),
                      Member ''sequence'' (JNum 1),
                      Member ''created_at'' (JStr (approval_created_at clk))])
          else s(''expense:'' @ expenseId \<mapsto> expense)))"
  using assms
  by (simp add: create_expense_def Let_def kv_get_upd kv_set_def truthy_js_and)

text \<open>
  The stored expense, property by property: the route's \<^verbatim>\<open>created_at\<close> and
  \<^verbatim>\<open>status\<close>, then whatever the body has, a property \<^verbatim>\<open>id\<close> of the body
  included, and the generated id only where the body has none.
\<close>

lemma expense_fields:
  assumes "distinct (map fst fs)"
  shows "get_field (object_literal num_str
      [Member ''id'' i, Spread (JObj fs), Member ''status'' st, Member ''created_at'' c]) k =
     (if k = ''created_at'' then c else if k = ''status'' then st
      else if k \<in> fst ` set fs then get_field (JObj fs) k
      else if k = ''id'' then i else Undefined)"
proof (cases "map_of fs k")
  case None
  then have "k \<notin> fst ` set fs"
    by (simp add: map_of_eq_None_iff)
  with None assms show ?thesis
    by (simp add: object_literal_def update_conv' map_of_spread)
next
  case (Some v)
  then have "k \<in> fst ` set fs"
    by (metis map_of_eq_None_iff option.distinct(1))
  with Some assms show ?thesis
    by (simp add: object_literal_def update_conv' map_of_spread)
qed

lemma approvalStep_object:
  "object_literal num_str
      [Member ''id'' i, Member ''expense_id'' e, Member ''approver_id'' a,
       Member ''status'' st, Member ''sequence'' n, Member ''created_at'' c] =
   JObj [(''id'', i), (''expense_id'', e), (''approver_id'', a), (''status'', st),
         (''sequence'', n), (''created_at'', c)]"
  by (simp add: object_literal_def)

text \<open>
  Claim C3. Submitting an expense (a JSON object) for an employee whose user record
  exists and has a manager id answers 200 with the new expense and stores it, and stores
  exactly one approval step beside it: the store changes at the expense's key and at one
  approval-step key. The expense has status \<^verbatim>\<open>pending\<close>, the time of the request as
  \<^verbatim>\<open>created_at\<close>, and every other property as the body gives it, under the generated
  id unless the body brings an \<^verbatim>\<open>id\<close> of its own. The step has its own id, the new
  expense's id, the manager id as approver, status \<^verbatim>\<open>pending\<close>, sequence 1 and its
  \<^verbatim>\<open>created_at\<close>, and nothing else.
\<close>

theorem submit_with_manager_creates_one_pending_step:
  assumes "expenseData = JObj fs" and "distinct (map fst fs)"
    and "kv_get s (''user:'' @ to_string num_str (get_field expenseData ''employee_id'')) = user"
    and "truthy user" and "truthy (get_field user ''manager_id'')"
  shows "\<exists>expense.
           create_expense num_str clk expenseData s =
             (Response 200 expense,
              s(''expense:expense-'' @ num_str (of_nat (expense_now clk)) \<mapsto> expense,
                ''approval_step:approval-'' @ num_str (of_nat (approval_now clk)) \<mapsto>
                  JObj [(''id'', JStr (''approval-'' @ num_str (of_nat (approval_now clk)))),
                        (''expense_id'', JStr (''expense-'' @ num_str (of_nat (expense_now clk)))),
                        (''approver_id'', get_field user ''manager_id''),
                        (''status'', JStr ''pending''),
                        (''sequence'', JNum 1),
                        (''created_at'', JStr (approval_created_at clk))]))
         \<and> (\<forall>k. get_field expense k =
               (if k = ''created_at'' then JStr (expense_created_at clk)
                else if k = ''status'' then JStr ''pending''
                else if k \<in> fst ` set fs then get_field expenseData k
                else if k = ''id'' then JStr (''expense-'' @ num_str (of_nat (expense_now clk)))
                else Undefined))"
proof -
  let ?expense = "object_literal num_str
            [Member ''id'' (JStr (''expense-'' @ num_str (of_nat (expense_now clk)))),
             Spread (JObj fs),
             Member ''status'' (JStr ''pending''),
             Member ''created_at'' (JStr (expense_created_at clk))]"
  have body: "\<not> nullish (JObj fs)"
    by (simp add: nullish_def)
  have user: "kv_get s (''user:'' @ to_string num_str (get_field (JObj fs) ''employee_id'')) = user"
    using assms(3) unfolding assms(1) .
  have "create_expense num_str clk (JObj fs) s =
             (Response 200 ?expense,
              s(''expense:expense-'' @ num_str (of_nat (expense_now clk)) \<mapsto> ?expense,
                ''approval_step:approval-'' @ num_str (of_nat (approval_now clk)) \<mapsto>
                  JObj [(''id'', JStr (''approval-'' @ num_str (of_nat (approval_now clk)))),
                        (''expense_id'', JStr (''expense-'' @ num_str (of_nat (expense_now clk)))),
                        (''approver_id'', get_field user ''manager_id''),
                        (''status'', JStr ''pending''),
                        (''sequence'', JNum 1),
                        (''created_at'', JStr (approval_created_at clk))]))"
    unfolding create_expense_object [OF body] Let_def user approvalStep_object
    using assms(4,5) by simp
  moreover have "\<forall>k. get_field ?expense k =
               (if k = ''created_at'' then JStr (expense_created_at clk)
                else if k = ''status'' then JStr ''pending''
                else if k \<in> fst ` set fs then get_field (JObj fs) k
                else if k = ''id'' then JStr (''expense-'' @ num_str (of_nat (expense_now clk)))
                else Undefined)"
    using expense_fields [OF assms(2)] by blast
  ultimately show ?thesis
    unfolding assms(1) by blast
qed

theorem submit_with_manager_creates_one_pending_step_witness:
  "kv_get demo_store (''user:'' @ to_string decimal (get_field sample_body ''employee_id''))
        = demo_users ''2024-01-16T09:00:00.000Z'' ! 2
   \<and> truthy (demo_users ''2024-01-16T09:00:00.000Z'' ! 2)
   \<and> truthy (get_field (demo_users ''2024-01-16T09:00:00.000Z'' ! 2) ''manager_id'')
   \<and> (\<exists>expense.
         create_expense decimal sample_clock sample_body demo_store =
           (Response 200 expense,
            demo_store(''expense:expense-1705400000000'' \<mapsto> expense,
                       ''approval_step:approval-1705400000001'' \<mapsto>
                         JObj [(''id'', JStr ''approval-1705400000001''),
                               (''expense_id'', JStr ''expense-1705400000000''),
                               (''approver_id'', JStr ''manager-001''),
                               (''status'', JStr ''pending''),
                               (''sequence'', JNum 1),
                               (''created_at'', JStr ''2024-01-16T10:13:20.001Z'')]))
         \<and> get_field expense ''id'' = JStr ''expense-1705400000000''
         \<and> get_field expense ''status'' = JStr ''pending''
         \<and> get_field expense ''created_at'' = JStr ''2024-01-16T10:13:20.000Z''
         \<and> get_field expense ''employee_id'' = JStr ''employee-001''
         \<and> get_field expense ''amount'' = JNum 120
         \<and> get_field expense ''currency'' = JStr ''USD''
         \<and> get_field expense ''category'' = JStr ''Transportation''
         \<and> get_field expense ''date'' = JStr ''2024-01-16''
         \<and> get_field expense ''amount_in_company_currency'' = Undefined)"
proof -
  let ?user = "demo_users ''2024-01-16T09:00:00.000Z'' ! 2"
  let ?fs = "[(''employee_id'', JStr ''employee-001''), (''amount'', JNum 120),
           (''currency'', JStr ''USD''), (''category'', JStr ''Transportation''),
           (''date'', JStr ''2024-01-16'')]"
  have b: "sample_body = JObj ?fs"
    by (simp add: sample_body_def)
  have d: "distinct (map fst ?fs)"
    by simp
  have user: "kv_get demo_store (''user:'' @ to_string decimal (get_field sample_body ''employee_id''))
      = ?user"
    by (simp add: sample_body_fields kv_get_def demo_store_employee)
  have manager: "truthy (get_field ?user ''manager_id'')"
    by (simp add: demo_employee_fields)
  from submit_with_manager_creates_one_pending_step
    [where s = demo_store and expenseData = sample_body and num_str = decimal
       and clk = sample_clock and user = ?user and fs = ?fs,
     OF b d user demo_employee_fields(1) manager]
  obtain expense where
    r: "create_expense decimal sample_clock sample_body demo_store =
             (Response 200 expense,
              demo_store(''expense:expense-'' @ decimal (of_nat (expense_now sample_clock)) \<mapsto> expense,
                ''approval_step:approval-'' @ decimal (of_nat (approval_now sample_clock)) \<mapsto>
                  JObj [(''id'', JStr (''approval-'' @ decimal (of_nat (approval_now sample_clock)))),
                        (''expense_id'', JStr (''expense-'' @ decimal (of_nat (expense_now sample_clock)))),
                        (''approver_id'', get_field ?user ''manager_id''),
                        (''status'', JStr ''pending''),
                        (''sequence'', JNum 1),
                        (''created_at'', JStr (approval_created_at sample_clock))]))"
    and f: "\<forall>k. get_field expense k =
               (if k = ''created_at'' then JStr (expense_created_at sample_clock)
                else if k = ''status'' then JStr ''pending''
                else if k \<in> fst ` set ?fs then get_field sample_body k
                else if k = ''id'' then JStr (''expense-'' @ decimal (of_nat (expense_now sample_clock)))
                else Undefined)"
    by blast
  have "create_expense decimal sample_clock sample_body demo_store =
           (Response 200 expense,
            demo_store(''expense:expense-1705400000000'' \<mapsto> expense,
                       ''approval_step:approval-1705400000001'' \<mapsto>
                         JObj [(''id'', JStr ''approval-1705400000001''),
                               (''expense_id'', JStr ''expense-1705400000000''),
                               (''approver_id'', JStr ''manager-001''),
                               (''status'', JStr ''pending''),
                               (''sequence'', JNum 1),
                               (''created_at'', JStr ''2024-01-16T10:13:20.001Z'')]))
         \<and> get_field expense ''id'' = JStr ''expense-1705400000000''
         \<and> get_field expense ''status'' = JStr ''pending''
         \<and> get_field expense ''created_at'' = JStr ''2024-01-16T10:13:20.000Z''
         \<and> get_field expense ''employee_id'' = JStr ''employee-001''
         \<and> get_field expense ''amount'' = JNum 120
         \<and> get_field expense ''currency'' = JStr ''USD''
         \<and> get_field expense ''category'' = JStr ''Transportation''
         \<and> get_field expense ''date'' = JStr ''2024-01-16''
         \<and> get_field expense ''amount_in_company_currency'' = Undefined"
    using r
    by (simp add: f sample_clock_def decimal_expense_now decimal_approval_now demo_employee_fields
        sample_body_def)
  then have "\<exists>expense. create_expense decimal sample_clock sample_body demo_store =
           (Response 200 expense,
            demo_store(''expense:expense-1705400000000'' \<mapsto> expense,
                       ''approval_step:approval-1705400000001'' \<mapsto>
                         JObj [(''id'', JStr ''approval-1705400000001''),
                               (''expense_id'', JStr ''expense-1705400000000''),
                               (''approver_id'', JStr ''manager-001''),
                               (''status'', JStr ''pending''),
                               (''sequence'', JNum 1),
                               (''created_at'', JStr ''2024-01-16T10:13:20.001Z'')]))
         \<and> get_field expense ''id'' = JStr ''expense-1705400000000''
         \<and> get_field expense ''status'' = JStr ''pending''
         \<and> get_field expense ''created_at'' = JStr ''2024-01-16T10:13:20.000Z''
         \<and> get_field expense ''employee_id'' = JStr ''employee-001''
         \<and> get_field expense ''amount'' = JNum 120
         \<and> get_field expense ''currency'' = JStr ''USD''
         \<and> get_field expense ''category'' = JStr ''Transportation''
         \<and> get_field expense ''date'' = JStr ''2024-01-16''
         \<and> get_field expense ''amount_in_company_currency'' = Undefined"
    by blast
  with user demo_employee_fields(1) manager show ?thesis
    by blast
qed



section \<open>User deletion\<close>



section \<open>The form's submission\<close>

text \<open>The rates and amounts of the sample runs, as the conversion route computes them.\<close>

lemma looked_up_USD_USD:
  "looked_up inherited ''USD'' ''USD'' = Found True (Double 1) (Some (JNum 1))"
  by (simp add: looked_up_def table_rate_def conversionRates_def double_1 found_number_value_def)

lemma looked_up_USD_EUR:
  "looked_up inherited ''USD'' ''EUR'' =
     Found True (Double (7656119366529843 / 9007199254740992))
       (Some (JNum (7656119366529843 / 9007199254740992)))"
  by (simp add: looked_up_def table_rate_def conversionRates_def double_0_85
      found_number_value_def)

lemma looked_up_USD_CAD: "looked_up sample_engine ''USD'' ''CAD'' = Absent"
  by (simp add: looked_up_def table_rate_def conversionRates_def sample_engine_def)

lemma looked_up_USD_constructor:
  "looked_up sample_engine ''USD'' ''constructor'' = Found True NaN None"
  by (simp add: looked_up_def table_rate_def conversionRates_def sample_engine_def)

lemma convertedAmount_120_USD: "convertedAmount inherited ''USD'' ''USD'' (Double 120) = Double 120"
  by (simp add: convertedAmount_def rate_or_1_def or_1_def looked_up_USD_USD doubles)

lemma convertedAmount_100_USD: "convertedAmount inherited ''USD'' ''USD'' (Double 100) = Double 100"
  by (simp add: convertedAmount_def rate_or_1_def or_1_def looked_up_USD_USD doubles)

lemma convertedAmount_100_USD_EUR: "convertedAmount inherited ''USD'' ''EUR'' (Double 100) = Double 85"
  by (simp add: convertedAmount_def rate_or_1_def or_1_def looked_up_USD_EUR doubles)

text \<open>The answer of the conversion route, and the body the form posts.\<close>

lemma json_number_defined: "json_number n \<noteq> Undefined"
  by (cases n) simp_all

lemma convert_route_answer:
  assumes "looked_up inherited A B \<noteq> Throwing"
  shows "ok (convert_route inherited A B x)"
    and "get_field (body (convert_route inherited A B x)) ''convertedAmount'' =
           json_number (convertedAmount inherited A B x)"
  using assms by (simp_all add: convert_route_def ok_def json_of_fields_def json_number_defined)

lemma convert_route_throwing:
  assumes "looked_up inherited A B = Throwing"
  shows "convert_route inherited A B x =
           Response 500 (JObj [(''error'', JStr ''Failed to convert currency'')])"
    and "\<not> ok (convert_route inherited A B x)"
  using assms by (simp_all add: convert_route_def ok_def error_body_def)

lemma expenseData_of_object:
  "\<exists>fs. expenseData_of user_id receiptUrl formData conversionData = JObj fs
        \<and> distinct (map fst fs)
        \<and> get_field (JObj fs) ''employee_id'' =
             (case user_id of None \<Rightarrow> Undefined | Some u \<Rightarrow> JStr u)
        \<and> get_field (JObj fs) ''amount_in_company_currency'' =
             get_field conversionData ''convertedAmount''"
  by (cases user_id; cases "receiptUrl = Undefined";
      cases "get_field conversionData ''convertedAmount'' = Undefined")
     (simp_all add: expenseData_of_def json_of_fields_def json_number_defined)

text \<open>
  Claim C5, as amended. The submission route converts nothing: it stores the
  \<^verbatim>\<open>amount_in_company_currency\<close> of the request body as it came. The conversion is
  the form's: \<^verbatim>\<open>handleSubmit\<close> asks the conversion route for the amount in USD, the
  company currency it fixes, and posts the answer. So an expense submitted through the
  form, for a user whose record has a manager id, is stored with status \<^verbatim>\<open>pending\<close>
  and with \<^verbatim>\<open>amount_in_company_currency\<close> equal to the conversion route's result for
  the amount, its currency and USD, beside one pending approval step for the manager.
  Where the conversion route fails, the form posts nothing and the store stays as it was.
\<close>

theorem form_submission_persists_converted_amount:
  "(truthy (kv_get s (''user:'' @ uid))
      \<and> truthy (get_field (kv_get s (''user:'' @ uid)) ''manager_id'')
      \<and> looked_up inherited (form_currency formData) ''USD'' \<noteq> Throwing \<longrightarrow>
      (\<exists>expense step.
         handleSubmit inherited num_str clk (Some uid) receiptUrl formData s =
           (Response 200 expense,
            s(''expense:expense-'' @ num_str (of_nat (expense_now clk)) \<mapsto> expense,
              ''approval_step:approval-'' @ num_str (of_nat (approval_now clk)) \<mapsto> step))
         \<and> get_field expense ''status'' = JStr ''pending''
         \<and> get_field expense ''amount_in_company_currency'' =
              json_number (convertedAmount inherited (form_currency formData) ''USD''
                             (form_amount formData))
         \<and> get_field step ''status'' = JStr ''pending''
         \<and> get_field step ''approver_id'' = get_field (kv_get s (''user:'' @ uid)) ''manager_id''))
   \<and> (looked_up inherited (form_currency formData) ''USD'' = Throwing \<longrightarrow>
        handleSubmit inherited num_str clk (Some uid) receiptUrl formData s =
          (Response 500 (JObj [(''error'', JStr ''Failed to convert currency'')]), s))
   \<and> (\<forall>fs. distinct (map fst fs) \<longrightarrow>
         get_field
           (kv_get (snd (create_expense num_str clk (JObj fs) s))
              (''expense:expense-'' @ num_str (of_nat (expense_now clk))))
           ''amount_in_company_currency''
         = get_field (JObj fs) ''amount_in_company_currency'')"
proof (intro conjI allI impI)
  let ?conv = "convert_route inherited (form_currency formData) ''USD'' (form_amount formData)"
  let ?user = "kv_get s (''user:'' @ uid)"
  assume h: "truthy ?user \<and> truthy (get_field ?user ''manager_id'')
      \<and> looked_up inherited (form_currency formData) ''USD'' \<noteq> Throwing"
  then have nt: "looked_up inherited (form_currency formData) ''USD'' \<noteq> Throwing"
    and u: "truthy ?user" and m: "truthy (get_field ?user ''manager_id'')"
    by blast+
  obtain fs where fs: "expenseData_of (Some uid) receiptUrl formData (body ?conv) = JObj fs"
    and d: "distinct (map fst fs)"
    and emp: "get_field (JObj fs) ''employee_id'' = JStr uid"
    and amt: "get_field (JObj fs) ''amount_in_company_currency'' =
        get_field (body ?conv) ''convertedAmount''"
    using expenseData_of_object [of "Some uid" receiptUrl formData "body ?conv"] by auto
  have body: "\<not> nullish (JObj fs)"
    by (simp add: nullish_def)
  have key: "''user:'' @ to_string num_str (get_field (JObj fs) ''employee_id'') = ''user:'' @ uid"
    unfolding emp by simp
  let ?expense = "object_literal num_str
            [Member ''id'' (JStr (''expense-'' @ num_str (of_nat (expense_now clk)))),
             Spread (JObj fs),
             Member ''status'' (JStr ''pending''),
             Member ''created_at'' (JStr (expense_created_at clk))]"
  let ?step = "JObj [(''id'', JStr (''approval-'' @ num_str (of_nat (approval_now clk)))),
                     (''expense_id'', JStr (''expense-'' @ num_str (of_nat (expense_now clk)))),
                     (''approver_id'', get_field ?user ''manager_id''),
                     (''status'', JStr ''pending''),
                     (''sequence'', JNum 1),
                     (''created_at'', JStr (approval_created_at clk))]"
  have hs: "handleSubmit inherited num_str clk (Some uid) receiptUrl formData s =
      create_expense num_str clk (JObj fs) s"
    by (simp add: handleSubmit_def Let_def convert_route_answer(1) [OF nt] fs)
  have "create_expense num_str clk (JObj fs) s =
           (Response 200 ?expense,
            s(''expense:expense-'' @ num_str (of_nat (expense_now clk)) \<mapsto> ?expense,
              ''approval_step:approval-'' @ num_str (of_nat (approval_now clk)) \<mapsto> ?step))"
    unfolding create_expense_object [OF body] Let_def key approvalStep_object
    using u m by simp
  with hs have r: "handleSubmit inherited num_str clk (Some uid) receiptUrl formData s =
           (Response 200 ?expense,
            s(''expense:expense-'' @ num_str (of_nat (expense_now clk)) \<mapsto> ?expense,
              ''approval_step:approval-'' @ num_str (of_nat (approval_now clk)) \<mapsto> ?step))"
    by simp
  have st: "get_field ?expense ''status'' = JStr ''pending''"
    by (simp add: expense_fields [OF d])
  have "get_field ?expense ''amount_in_company_currency'' =
      get_field (JObj fs) ''amount_in_company_currency''"
    by (simp add: expense_fields [OF d] get_field_absent del: get_field.simps)
  then have am: "get_field ?expense ''amount_in_company_currency'' =
      json_number (convertedAmount inherited (form_currency formData) ''USD'' (form_amount formData))"
    by (simp only: amt convert_route_answer(2) [OF nt])
  have s1: "get_field ?step ''status'' = JStr ''pending''"
    and s2: "get_field ?step ''approver_id'' = get_field ?user ''manager_id''"
    by simp_all
  from r st am s1 s2
  show "\<exists>expense step.
         handleSubmit inherited num_str clk (Some uid) receiptUrl formData s =
           (Response 200 expense,
            s(''expense:expense-'' @ num_str (of_nat (expense_now clk)) \<mapsto> expense,
              ''approval_step:approval-'' @ num_str (of_nat (approval_now clk)) \<mapsto> step))
         \<and> get_field expense ''status'' = JStr ''pending''
         \<and> get_field expense ''amount_in_company_currency'' =
              json_number (convertedAmount inherited (form_currency formData) ''USD''
                             (form_amount formData))
         \<and> get_field step ''status'' = JStr ''pending''
         \<and> get_field step ''approver_id'' = get_field ?user ''manager_id''"
    by blast
next
  assume t: "looked_up inherited (form_currency formData) ''USD'' = Throwing"
  show "handleSubmit inherited num_str clk (Some uid) receiptUrl formData s =
          (Response 500 (JObj [(''error'', JStr ''Failed to convert currency'')]), s)"
    by (simp add: handleSubmit_def Let_def convert_route_throwing [OF t] ok_def)
next
  fix fs :: "(string \<times> jsval) list"
  assume d: "distinct (map fst fs)"
  have body: "\<not> nullish (JObj fs)"
    by (simp add: nullish_def)
  show "get_field
          (kv_get (snd (create_expense num_str clk (JObj fs) s))
             (''expense:expense-'' @ num_str (of_nat (expense_now clk))))
          ''amount_in_company_currency''
        = get_field (JObj fs) ''amount_in_company_currency''"
    by (simp add: create_expense_object [OF body] Let_def kv_get_upd expense_fields [OF d]
        get_field_absent del: get_field.simps)
qed

lemma sample_conversion:
  "body (convert_route sample_engine ''USD'' ''USD'' (Double 120)) =
     JObj [(''originalAmount'', JNum 120), (''convertedAmount'', JNum 120),
           (''fromCurrency'', JStr ''USD''), (''toCurrency'', JStr ''USD''), (''rate'', JNum 1)]"
  by (simp add: convert_route_def json_of_fields_def looked_up_USD_USD or_1_def
      convertedAmount_120_USD)

lemma sample_expenseData:
  "expenseData_of (Some ''employee-001'') Null sample_form
     (body (convert_route sample_engine ''USD'' ''USD'' (Double 120))) =
     JObj [(''employee_id'', JStr ''employee-001''),
           (''amount'', JNum 120), (''currency'', JStr ''USD''),
           (''amount_in_company_currency'', JNum 120), (''category'', JStr ''Transportation''),
           (''description'', JStr ''Uber to client meeting''), (''date'', JStr ''2024-01-16''),
           (''receipt_url'', Null)]"
  by (simp add: sample_conversion expenseData_of_def sample_form_def json_of_fields_def)

text \<open>The sample store is what the form's submission leaves behind.\<close>

lemma sample_submission:
  "handleSubmit sample_engine decimal sample_clock (Some ''employee-001'') Null sample_form demo_store =
     (Response 200 sample_expense, submitted_store)"
proof -
  have c: "form_currency sample_form = ''USD''" and a: "form_amount sample_form = Double 120"
    by (simp_all add: sample_form_def)
  have okc: "ok (convert_route sample_engine ''USD'' ''USD'' (Double 120))"
    by (rule convert_route_answer) (simp add: looked_up_USD_USD)
  show ?thesis
    unfolding handleSubmit_def Let_def c a
    by (simp add: okc sample_expenseData create_expense_def sample_clock_def Let_def
      decimal_expense_now decimal_approval_now nullish_def kv_set_def kv_get_upd
      kv_get_def demo_store_employee demo_users_def js_and_def object_literal_def
      sample_expense_def sample_step_def submitted_store_def)
qed

theorem form_submission_persists_converted_amount_witness:
  "truthy (kv_get demo_store (''user:'' @ ''employee-001''))
   \<and> get_field (kv_get demo_store (''user:'' @ ''employee-001'')) ''manager_id'' = JStr ''manager-001''
   \<and> looked_up sample_engine (form_currency sample_form) ''USD'' \<noteq> Throwing
   \<and> form_amount sample_form = Double 120 \<and> form_currency sample_form = ''USD''
   \<and> (\<exists>expense step.
         handleSubmit sample_engine decimal sample_clock (Some ''employee-001'') Null sample_form
             demo_store =
           (Response 200 expense,
            demo_store(''expense:expense-1705400000000'' \<mapsto> expense,
                       ''approval_step:approval-1705400000001'' \<mapsto> step))
         \<and> get_field expense ''status'' = JStr ''pending''
         \<and> get_field expense ''amount_in_company_currency'' = JNum 120
         \<and> get_field step ''status'' = JStr ''pending''
         \<and> get_field step ''approver_id'' = JStr ''manager-001'')"
proof -
  let ?user = "kv_get demo_store (''user:'' @ ''employee-001'')"
  have user: "?user = demo_users ''2024-01-16T09:00:00.000Z'' ! 2"
    by (simp add: kv_get_def demo_store_employee)
  have u: "truthy ?user"
    unfolding user by (rule demo_employee_fields)
  have m: "get_field ?user ''manager_id'' = JStr ''manager-001''"
    unfolding user by (rule demo_employee_fields)
  have nt: "looked_up sample_engine (form_currency sample_form) ''USD'' \<noteq> Throwing"
    by (simp add: sample_form_def looked_up_USD_USD)
  have h: "truthy ?user \<and> truthy (get_field ?user ''manager_id'')
      \<and> looked_up sample_engine (form_currency sample_form) ''USD'' \<noteq> Throwing"
    using u nt unfolding m by simp
  have f: "form_amount sample_form = Double 120" "form_currency sample_form = ''USD''"
    by (simp_all add: sample_form_def)
  from form_submission_persists_converted_amount
    [where s = demo_store and uid = "''employee-001''" and num_str = decimal
       and inherited = sample_engine
       and clk = sample_clock and receiptUrl = Null and formData = sample_form,
     THEN conjunct1, THEN mp, OF h]
  have "\<exists>expense step.
         handleSubmit sample_engine decimal sample_clock (Some ''employee-001'') Null sample_form
             demo_store =
           (Response 200 expense,
            demo_store(''expense:expense-1705400000000'' \<mapsto> expense,
                       ''approval_step:approval-1705400000001'' \<mapsto> step))
         \<and> get_field expense ''status'' = JStr ''pending''
         \<and> get_field expense ''amount_in_company_currency'' = JNum 120
         \<and> get_field step ''status'' = JStr ''pending''
         \<and> get_field step ''approver_id'' = JStr ''manager-001''"
    unfolding m f
    by (simp add: sample_clock_def decimal_expense_now decimal_approval_now
        convertedAmount_120_USD)
  with u m nt f show ?thesis
    by blast
qed

text \<open>
  Claim C5 as stated fails. Posted to the submission route, the specification's example
  body is stored without any \<^verbatim>\<open>amount_in_company_currency\<close>; and where the company's
  currency is EUR, 100 USD submitted through the form is stored as 100, not as the 85
  that a conversion into the company's currency gives.
\<close>

theorem submission_route_does_not_convert:
  "get_field
     (kv_get (snd (create_expense decimal sample_clock sample_body demo_store))
        ''expense:expense-1705400000000'')
     ''amount_in_company_currency'' = Undefined
   \<and> get_field (kv_get eur_company_store ''company:demo-company-001'') ''currency'' = JStr ''EUR''
   \<and> get_field
        (kv_get (snd (handleSubmit sample_engine decimal sample_clock (Some ''employee-001'') Null
                        usd_100_form eur_company_store))
           ''expense:expense-1705400000000'')
        ''amount_in_company_currency'' = JNum 100
   \<and> convertedAmount sample_engine ''USD'' ''EUR'' (Double 100) = Double 85"
proof -
  let ?fs = "[(''employee_id'', JStr ''employee-001''), (''amount'', JNum 120),
           (''currency'', JStr ''USD''), (''category'', JStr ''Transportation''),
           (''date'', JStr ''2024-01-16'')]"
  let ?conv = "convert_route sample_engine ''USD'' ''USD'' (Double 100)"
  have body: "\<not> nullish (JObj ?fs)"
    by (simp add: nullish_def)
  have d: "distinct (map fst ?fs)"
    by simp
  have server: "get_field
     (kv_get (snd (create_expense decimal sample_clock sample_body demo_store))
        ''expense:expense-1705400000000'')
     ''amount_in_company_currency'' = Undefined"
    by (simp add: sample_body_def create_expense_object [OF body] Let_def kv_get_upd
        sample_clock_def decimal_expense_now expense_fields [OF d])
  have company: "get_field (kv_get eur_company_store ''company:demo-company-001'') ''currency''
      = JStr ''EUR''"
    by (simp add: eur_company_store_def kv_get_upd)
  have nt: "looked_up sample_engine ''USD'' ''USD'' \<noteq> Throwing"
    by (simp add: looked_up_USD_USD)
  have c: "form_currency usd_100_form = ''USD''" and a: "form_amount usd_100_form = Double 100"
    by (simp_all add: usd_100_form_def)
  obtain fs where fs: "expenseData_of (Some ''employee-001'') Null usd_100_form (body ?conv) = JObj fs"
    and dfs: "distinct (map fst fs)"
    and amt: "get_field (JObj fs) ''amount_in_company_currency'' = JNum 100"
    using expenseData_of_object [of "Some ''employee-001''" Null usd_100_form "body ?conv"]
    by (auto simp: convert_route_answer(2) [OF nt] convertedAmount_100_USD)
  have body': "\<not> nullish (JObj fs)"
    by (simp add: nullish_def)
  have hs: "handleSubmit sample_engine decimal sample_clock (Some ''employee-001'') Null
              usd_100_form eur_company_store
            = create_expense decimal sample_clock (JObj fs) eur_company_store"
    unfolding handleSubmit_def Let_def c a
    by (simp add: convert_route_answer(1) [OF nt] fs)
  have "get_field
        (kv_get (snd (create_expense decimal sample_clock (JObj fs) eur_company_store))
           ''expense:expense-1705400000000'')
        ''amount_in_company_currency'' = get_field (JObj fs) ''amount_in_company_currency''"
    by (simp add: create_expense_object [OF body'] Let_def kv_get_upd
        sample_clock_def decimal_expense_now expense_fields [OF dfs] get_field_absent
        del: get_field.simps)
  then have form: "get_field
        (kv_get (snd (handleSubmit sample_engine decimal sample_clock (Some ''employee-001'') Null
                        usd_100_form eur_company_store))
           ''expense:expense-1705400000000'')
        ''amount_in_company_currency'' = JNum 100"
    by (simp only: hs amt)
  from server company form convertedAmount_100_USD_EUR show ?thesis
    by blast
qed

section \<open>Currency conversion: the rate and the rounding\<close>

lemma rounded_to_2dp_unique:
  assumes "rounded_to_2dp y r" and "rounded_to_2dp y r'"
  shows "r = r'"
proof -
  from assms have a: "of_int \<lfloor>r * 100\<rfloor> = r * 100" and b: "of_int \<lfloor>r' * 100\<rfloor> = r' * 100"
    and close: "\<bar>r * 100 - r' * 100\<bar> < 1"
    by (auto simp: rounded_to_2dp_def)
  from close have "\<bar>(of_int \<lfloor>r * 100\<rfloor> :: rat) - of_int \<lfloor>r' * 100\<rfloor>\<bar> < 1"
    by (simp only: a b)
  then have "\<bar>\<lfloor>r * 100\<rfloor> - \<lfloor>r' * 100\<rfloor>\<bar> < 1"
    by (metis of_int_1 of_int_abs of_int_diff of_int_less_iff)
  then have "\<lfloor>r * 100\<rfloor> = \<lfloor>r' * 100\<rfloor>" by linarith
  then have "(of_int \<lfloor>r * 100\<rfloor> :: rat) = of_int \<lfloor>r' * 100\<rfloor>" by (rule arg_cong)
  then have "r * 100 = r' * 100" by (simp only: a b)
  then show ?thesis by simp
qed

lemma convertedAmount_1_50_USD_EUR:
  "convertedAmount inherited ''USD'' ''EUR'' (Double (3 / 2)) =
     Double (2859785763380265 / 2251799813685248)"
  by (simp add: convertedAmount_def rate_or_1_def or_1_def looked_up_USD_EUR doubles)

lemma convertedAmount_2_675_USD_CAD:
  "convertedAmount sample_engine ''USD'' ''CAD'' (Double (3011782250804019 / 1125899906842624)) =
     Double (6034823500676465 / 2251799813685248)"
  by (simp add: convertedAmount_def rate_or_1_def or_1_def looked_up_USD_CAD
      found_number_value_def doubles)

lemma convertedAmount_1_234_USD:
  "convertedAmount inherited ''USD'' ''USD'' (Double (694680242521899 / 562949953421312)) =
     Double (2769713770832855 / 2251799813685248)"
  by (simp add: convertedAmount_def rate_or_1_def or_1_def looked_up_USD_USD doubles)

lemma convertedAmount_constructor:
  "convertedAmount sample_engine ''USD'' ''constructor'' x = NaN"
  by (cases x)
     (simp_all add: convertedAmount_def rate_or_1_def or_1_def looked_up_USD_constructor
        Math_round.simps)

text \<open>
  Claim C6. The conversion route's result is not always the product of the amount and
  the rate rounded to two decimal places, and an unknown pair does not always get the
  rate 1. The route computes in doubles. For 1.50 USD to EUR the table's rate is 0.85 and
  the product 1.275 rounds to 1.28, the tie going up; the route multiplies 1.5 by the
  double nearest to 0.85 and by 100 to 127.49999999999999, and answers 1.27. Nor is the
  result the rounding of what the doubles stand for: the path segment 2.675 is read as a
  double below 2.675, whose rounding is 2.67, and for the unknown pair USD to CAD the
  route multiplies it by 100 to 267.5 and answers 2.68. For USD to
  \<^verbatim>\<open>constructor\<close>, a pair that is not in the table, the lookup finds the function
  that every object inherits; the rate is not 1, the product is NaN, and the answer
  carries \<^verbatim>\<open>null\<close> for the converted amount and no rate.
\<close>

theorem convert_route_result_is_not_the_rounded_product:
  "table_rate ''USD'' ''EUR'' = Some (85 / 100)
   \<and> rounded_to_2dp (150 / 100 * (85 / 100)) (128 / 100)
   \<and> \<not> rounded_to_2dp (150 / 100 * (85 / 100)) (127 / 100)
   \<and> convertedAmount sample_engine ''USD'' ''EUR'' (round_double (150 / 100)) = round_double (127 / 100)
   \<and> round_double (127 / 100) \<noteq> round_double (128 / 100)
   \<and> body (convert_route sample_engine ''USD'' ''EUR'' (round_double (150 / 100))) =
        JObj [(''originalAmount'', JNum (150 / 100)),
              (''convertedAmount'', JNum (2859785763380265 / 2251799813685248)),
              (''fromCurrency'', JStr ''USD''), (''toCurrency'', JStr ''EUR''),
              (''rate'', JNum (7656119366529843 / 9007199254740992))]
   \<and> table_rate ''USD'' ''CAD'' = None
   \<and> round_double (2675 / 1000) = Double (3011782250804019 / 1125899906842624)
   \<and> rounded_to_2dp (3011782250804019 / 1125899906842624) (267 / 100)
   \<and> convertedAmount sample_engine ''USD'' ''CAD'' (round_double (2675 / 1000)) = round_double (268 / 100)
   \<and> round_double (268 / 100) \<noteq> round_double (267 / 100)
   \<and> table_rate ''USD'' ''constructor'' = None
   \<and> body (convert_route sample_engine ''USD'' ''constructor'' (Double 5)) =
        JObj [(''originalAmount'', JNum 5), (''convertedAmount'', Null),
              (''fromCurrency'', JStr ''USD''), (''toCurrency'', JStr ''constructor'')]"
proof -
  have t1: "table_rate ''USD'' ''EUR'' = Some (85 / 100)"
    and t2: "table_rate ''USD'' ''CAD'' = None"
    and t3: "table_rate ''USD'' ''constructor'' = None"
    by (simp_all add: table_rate_def conversionRates_def)
  have r1: "rounded_to_2dp (150 / 100 * (85 / 100)) (128 / 100)"
    and r2: "\<not> rounded_to_2dp (150 / 100 * (85 / 100)) (127 / 100)"
    and r3: "rounded_to_2dp (3011782250804019 / 1125899906842624) (267 / 100)"
    by (simp_all add: rounded_to_2dp_def)
  have c1: "convertedAmount sample_engine ''USD'' ''EUR'' (round_double (150 / 100))
      = round_double (127 / 100)"
    by (simp add: doubles convertedAmount_1_50_USD_EUR)
  have n1: "round_double (127 / 100) \<noteq> round_double (128 / 100)"
    and n2: "round_double (268 / 100) \<noteq> round_double (267 / 100)"
    by (simp_all add: doubles)
  have b1: "body (convert_route sample_engine ''USD'' ''EUR'' (round_double (150 / 100))) =
        JObj [(''originalAmount'', JNum (150 / 100)),
              (''convertedAmount'', JNum (2859785763380265 / 2251799813685248)),
              (''fromCurrency'', JStr ''USD''), (''toCurrency'', JStr ''EUR''),
              (''rate'', JNum (7656119366529843 / 9007199254740992))]"
    by (simp add: doubles convert_route_def json_of_fields_def looked_up_USD_EUR or_1_def
        convertedAmount_1_50_USD_EUR)
  have d2: "round_double (2675 / 1000) = Double (3011782250804019 / 1125899906842624)"
    by (simp add: doubles)
  have c2: "convertedAmount sample_engine ''USD'' ''CAD'' (round_double (2675 / 1000))
      = round_double (268 / 100)"
    by (simp add: doubles convertedAmount_2_675_USD_CAD)
  have b3: "body (convert_route sample_engine ''USD'' ''constructor'' (Double 5)) =
        JObj [(''originalAmount'', JNum 5), (''convertedAmount'', Null),
              (''fromCurrency'', JStr ''USD''), (''toCurrency'', JStr ''constructor'')]"
    by (simp add: convert_route_def json_of_fields_def looked_up_USD_constructor or_1_def
        convertedAmount_constructor)
  from t1 r1 r2 c1 n1 b1 t2 d2 r3 c2 n2 t3 b3 show ?thesis
    by blast
qed

text \<open>
  Claim C2. The conversion route has no test for equal currencies: it multiplies by the
  table's rate 1 and rounds, so an amount with more than two decimal places comes back
  changed. At USD to USD and 1.234 the route answers 1.23, where the client helper
  \<^verbatim>\<open>convertCurrency\<close>, which returns before the rounding, gives 1.234.
\<close>

theorem convert_route_rounds_same_currency:
  "convertedAmount sample_engine ''USD'' ''USD'' (round_double (1234 / 1000)) = round_double (123 / 100)
   \<and> round_double (123 / 100) \<noteq> round_double (1234 / 1000)
   \<and> get_field (body (convert_route sample_engine ''USD'' ''USD'' (round_double (1234 / 1000))))
        ''convertedAmount'' = json_number (round_double (123 / 100))
   \<and> get_field (body (convert_route sample_engine ''USD'' ''USD'' (round_double (1234 / 1000))))
        ''originalAmount'' = json_number (round_double (1234 / 1000))
   \<and> json_number (round_double (123 / 100)) = JNum (2769713770832855 / 2251799813685248)
   \<and> json_number (round_double (1234 / 1000)) = JNum (694680242521899 / 562949953421312)
   \<and> convertCurrency sample_engine (round_double (1234 / 1000)) ''USD'' ''USD''
        = Some (round_double (1234 / 1000))"
proof -
  have a: "convertedAmount sample_engine ''USD'' ''USD'' (round_double (1234 / 1000))
      = round_double (123 / 100)"
    by (simp add: doubles convertedAmount_1_234_USD)
  have b: "round_double (123 / 100) \<noteq> round_double (1234 / 1000)"
    by (simp add: doubles)
  have c: "get_field (body (convert_route sample_engine ''USD'' ''USD'' (round_double (1234 / 1000))))
        ''convertedAmount'' = json_number (round_double (123 / 100))"
    by (simp add: doubles convert_route_def json_of_fields_def looked_up_USD_USD or_1_def
        convertedAmount_1_234_USD)
  have d: "get_field (body (convert_route sample_engine ''USD'' ''USD'' (round_double (1234 / 1000))))
        ''originalAmount'' = json_number (round_double (1234 / 1000))"
    by (simp add: doubles convert_route_def json_of_fields_def looked_up_USD_USD or_1_def)
  have e: "json_number (round_double (123 / 100)) = JNum (2769713770832855 / 2251799813685248)"
    and f: "json_number (round_double (1234 / 1000)) = JNum (694680242521899 / 562949953421312)"
    by (simp_all add: doubles)
  have g: "convertCurrency sample_engine (round_double (1234 / 1000)) ''USD'' ''USD''
        = Some (round_double (1234 / 1000))"
    by (simp add: convertCurrency_def)
  from a b c d e f g show ?thesis
    by blast
qed

text \<open>The helper is the identity on equal currencies for every amount.\<close>

lemma convertCurrency_same: "convertCurrency inherited x A A = Some x"
  by (simp add: convertCurrency_def)

end
